theory Spec2Isabelle
  imports Main
begin

section \<open>Python values, exceptions and the log\<close>

text \<open>
  The document manager is Python code around four external services: a document database
  (three collections), a search service, an object store and an embedding service.
  Every operation is modelled as a function from the state of these services (the
  \<open>world\<close>) to an outcome and the state it leaves behind. A raised exception is the
  outcome \<open>Inl e\<close>; the state is returned next to it, since what was written before the
  raise stays written.
\<close>

datatype error =
    AssertionError string
  | ValueError string
  | IndexError string
  | ValidationError string
  | FileNotFoundError string
  | AttributeError string
  | TypeError string
  | IndexCreationError string
  | HttpResponseError string
  | PyException string

type_synonym 'a result = "error + 'a"

datatype log_level = INFO | WARNING | ERROR

type_synonym log_entry = "log_level \<times> string"

text \<open>\<open>bool(x)\<close> of an \<open>Optional[str]\<close>: \<open>None\<close> and the empty string are false.\<close>

definition truthy :: "string option \<Rightarrow> bool" where
  "truthy x = (case x of None \<Rightarrow> False | Some s \<Rightarrow> s \<noteq> [])"

text \<open>An \<open>Optional[str]\<close> inside an f-string: \<open>None\<close> is printed as the text None.\<close>

definition fmt :: "string option \<Rightarrow> string" where
  "fmt x = (case x of None \<Rightarrow> ''None'' | Some s \<Rightarrow> s)"

text \<open>\<open>str(n)\<close> of a non-negative integer.\<close>

definition digit_char :: "nat \<Rightarrow> char" where
  "digit_char d =
     (if d = 0 then CHR ''0'' else if d = 1 then CHR ''1'' else if d = 2 then CHR ''2''
      else if d = 3 then CHR ''3'' else if d = 4 then CHR ''4'' else if d = 5 then CHR ''5''
      else if d = 6 then CHR ''6'' else if d = 7 then CHR ''7'' else if d = 8 then CHR ''8''
      else CHR ''9'')"

fun str_nat :: "nat \<Rightarrow> string" where
  "str_nat n = (if n < 10 then [digit_char n] else str_nat (n div 10) @ [digit_char (n mod 10)])"

declare str_nat.simps [simp del]

section \<open>Data models\<close>

text \<open>
  Timestamps (\<open>created_at\<close>, \<open>updated_at\<close>, \<open>indexed_at\<close>) are left out of every record:
  no operation reads them. The embedding vectors are carried as values of a type
  parameter \<open>'e\<close>.
\<close>

datatype IndexingStrategy = DEFAULT | KEYED

record IndexingStrategyConfig =
  strategy :: IndexingStrategy
  index_key :: "string option"

datatype field_type = FString | FDate | FInteger | FFloat | FBoolean

record IndexField =
  field_name :: string
  field_type :: field_type
  filterable :: bool
  searchable :: bool
  sortable :: bool
  primary_key :: bool

record IndexSchema =
  schema_fields :: "IndexField list"
  vector_dimensions :: "int option"

record IndexConfig =
  index_schema :: IndexSchema
  indexing_strategy_config :: IndexingStrategyConfig
  description :: "string option"

text \<open>
  A stored customer record. \<open>Customer\<close> always carries an index config; the stored
  dictionary is read back with \<open>.get("index_config")\<close>, so the field is optional here.
\<close>

record Customer =
  cust_customer_id :: string
  cust_index_config :: "IndexConfig option"

record IndexRecord =
  ir_customer_id :: string
  ir_index_name :: string
  ir_account_ids :: "string list"
  ir_document_ids :: "string list"
  ir_admin_id :: string

record DocumentRecord =
  dr_document_id :: string
  dr_customer_id :: string
  dr_index_name :: string
  dr_account_id :: string
  dr_user_id :: string
  dr_session_id :: string
  dr_scope :: string
  dr_document_url :: string
  dr_document_name :: string
  dr_document_size :: nat
  dr_document_indexed :: bool
  dr_chunk_ids :: "string list"

datatype meta_value = MStr string | MInt nat | MNone

type_synonym metadata = "(string \<times> meta_value) list"

text \<open>
  The unit that is indexed (\<open>Document\<close>). \<open>chunk_id\<close> and \<open>chunk_position\<close> are optional
  in the dataclass; the only place that builds a \<open>Document\<close> always sets them.
\<close>

record 'e Document =
  doc_account_id :: "string option"
  doc_user_id :: "string option"
  doc_document_id :: string
  doc_chunk_id :: string
  doc_chunk_position :: nat
  doc_session_id :: "string option"
  doc_content :: string
  doc_is_global :: bool
  doc_metadata :: metadata
  doc_embedding :: 'e

text \<open>A loaded or split segment (\<open>LangchainDocument\<close>).\<close>

record LangchainDocument =
  page_content :: string
  lc_metadata :: metadata

section \<open>The state of the external services\<close>

datatype azure_type =
  EdmString | EdmDateTimeOffset | EdmInt32 | EdmDouble | EdmBoolean | CollectionEdmSingle

record SearchField =
  sf_name :: string
  sf_type :: azure_type
  sf_filterable :: bool
  sf_searchable :: bool
  sf_sortable :: bool
  sf_key :: bool
  sf_vector_search_dimensions :: "int option"

text \<open>
  One index of the search service: its field definitions and the units it holds. The
  service stores, for each unit, the values of the schema fields; the model keeps the
  whole unit, and the fields the code reads back (\<open>document_id\<close> and the key field) are
  read from it.
\<close>

record 'e SearchIndex =
  si_fields :: "SearchField list"
  si_units :: "'e Document list"

text \<open>
  The state: the three collections of the document database, the indexes of the search
  service, the names of the blobs in the object store, and the log. The services fail
  where their own state makes them fail (no such index, no key value, no such blob); a
  failure of the transport is modelled for the deletion of a blob only.
\<close>

record 'e world =
  customers :: "string \<rightharpoonup> Customer"
  indexes :: "string \<rightharpoonup> IndexRecord"
  documents :: "string \<rightharpoonup> DocumentRecord"
  search_service :: "string \<rightharpoonup> 'e SearchIndex"
  blobs :: "string list"
  logs :: "log_entry list"

definition log_msg :: "log_level \<Rightarrow> string \<Rightarrow> 'e world \<Rightarrow> 'e world" where
  "log_msg lvl msg w = w\<lparr>logs := logs w @ [(lvl, msg)]\<rparr>"

section \<open>CosmosDBClient\<close>

text \<open>
  A collection is a map from the value of its primary-key field to the record.
  \<open>replace_one\<close> and \<open>update_one\<close> with \<open>upsert=True\<close> both leave the given record under
  the id; the callers always pass a full record. The database itself does not fail in
  this model.
\<close>

definition insert_record :: "(string \<rightharpoonup> 'r) \<Rightarrow> 'r \<Rightarrow> string \<Rightarrow> (string \<rightharpoonup> 'r)" where
  "insert_record collection record_data record_id = collection(record_id \<mapsto> record_data)"

definition get_record :: "(string \<rightharpoonup> 'r) \<Rightarrow> string \<Rightarrow> 'r option" where
  "get_record collection record_id = collection record_id"

definition update_or_create_record ::
  "(string \<rightharpoonup> 'r) \<Rightarrow> string \<Rightarrow> 'r \<Rightarrow> (string \<rightharpoonup> 'r) \<times> log_entry" where
  "update_or_create_record collection record_id updated_data =
     (collection(record_id \<mapsto> updated_data),
      if collection record_id \<noteq> None
      then (INFO, ''Record '' @ record_id @ '' updated successfully.'')
      else (INFO, ''Record '' @ record_id @ '' created successfully.''))"

definition delete_record :: "(string \<rightharpoonup> 'r) \<Rightarrow> string \<Rightarrow> (string \<rightharpoonup> 'r) \<times> bool" where
  "delete_record collection record_id =
     (collection(record_id := None), collection record_id \<noteq> None)"

section \<open>IndexManager.update_docs_in_index_record\<close>

text \<open>
  \<open>list.remove(x)\<close> removes the first occurrence of \<open>x\<close> and raises \<open>ValueError\<close> when
  there is none.
\<close>

definition list_remove :: "string list \<Rightarrow> string \<Rightarrow> string list result" where
  "list_remove xs x =
     (if x \<in> set xs then Inr (remove1 x xs) else Inl (ValueError ''list.remove(x): x not in list''))"

definition update_docs_in_index_record ::
  "string \<Rightarrow> string \<Rightarrow> string \<Rightarrow> 'e world \<Rightarrow> bool result \<times> 'e world" where
  "update_docs_in_index_record customer_id document_id action w =
     (let index_name = customer_id in
      case get_record (indexes w) index_name of
        Some index_record \<Rightarrow>
          (let edited =
                 (if action = ''add'' then Inr (Some (ir_document_ids index_record @ [document_id]))
                  else if action = ''delete''
                  then (case list_remove (ir_document_ids index_record) document_id of
                          Inl e \<Rightarrow> Inl e | Inr ids \<Rightarrow> Inr (Some ids))
                  else Inr None)
           in case edited of
                Inl e \<Rightarrow> (Inl e, w)
              | Inr None \<Rightarrow> (Inr False, log_msg ERROR (''Invalid action: '' @ action) w)
              | Inr (Some ids) \<Rightarrow>
                  (let (collection, entry) =
                         update_or_create_record (indexes w) index_name
                           (index_record\<lparr>ir_document_ids := ids\<rparr>)
                   in (Inr True, log_msg (fst entry) (snd entry) (w\<lparr>indexes := collection\<rparr>))))
      | None \<Rightarrow>
          (Inr False,
           log_msg WARNING
             (''Index record not found for index name '' @ index_name @
              ''. Could not update record.'') w))"

section \<open>CustomerIndexSchemaManager\<close>

text \<open>\<open>f"'{x}'"\<close>: the text between single quotes.\<close>

definition quote :: "string \<Rightarrow> string" where
  "quote s = [CHR 0x27] @ s @ [CHR 0x27]"

definition customer_exists :: "string \<Rightarrow> 'e world \<Rightarrow> bool \<times> 'e world" where
  "customer_exists customer_id w =
     (case get_record (customers w) customer_id of
        Some customer_record \<Rightarrow>
          if cust_customer_id customer_record = customer_id then (True, w)
          else (False,
                log_msg WARNING (''Customer with id '' @ quote customer_id @ '' not found.'') w)
      | None \<Rightarrow>
          (False,
           log_msg WARNING (''Customer with id '' @ quote customer_id @ '' not found.'') w))"

definition register_customer :: "string \<Rightarrow> IndexConfig \<Rightarrow> 'e world \<Rightarrow> bool \<times> 'e world" where
  "register_customer customer_id index_config w =
     (let (found, w1) = customer_exists customer_id w in
      if found
      then (False,
            log_msg ERROR (''Customer with name '' @ quote customer_id @ '' already exists'') w1)
      else (True,
            log_msg INFO (''Registered customer: '' @ customer_id)
              (w1\<lparr>customers :=
                    insert_record (customers w1)
                      \<lparr>cust_customer_id = customer_id, cust_index_config = Some index_config\<rparr>
                      customer_id\<rparr>)))"

text \<open>
  \<open>get_index_config\<close> reads the record a second time; were it gone, \<open>.get\<close> on \<open>None\<close>
  would raise.
\<close>

definition get_index_config ::
  "string \<Rightarrow> 'e world \<Rightarrow> IndexConfig option result \<times> 'e world" where
  "get_index_config customer_id w =
     (let (found, w1) = customer_exists customer_id w in
      if found then
        (case get_record (customers w1) customer_id of
           Some customer_record \<Rightarrow>
             (case cust_index_config customer_record of
                Some cfg \<Rightarrow> (Inr (Some cfg), w1)
              | None \<Rightarrow>
                  (Inr None,
                   log_msg ERROR (''Index config for '' @ quote customer_id @ '' not found'') w1))
         | None \<Rightarrow> (Inl (AttributeError ''NoneType object has no attribute get''), w1))
      else (Inr None, w1))"

section \<open>AISearchIndexClient and the search service\<close>

record IndexMetadata =
  im_name :: string
  im_config :: IndexConfig

record IndexingResponse =
  success :: bool
  resp_document_id :: string
  error_message :: "string option"

definition check_index_exists :: "string \<Rightarrow> 'e world \<Rightarrow> bool \<times> 'e world" where
  "check_index_exists index_name w =
     (case search_service w index_name of
        Some _ \<Rightarrow> (True, w)
      | None \<Rightarrow> (False, log_msg INFO (''Index '' @ index_name @ '' not found'') w))"

definition field_type_mapping :: "field_type \<Rightarrow> azure_type" where
  "field_type_mapping t =
     (case t of FString \<Rightarrow> EdmString | FDate \<Rightarrow> EdmDateTimeOffset | FInteger \<Rightarrow> EdmInt32
      | FFloat \<Rightarrow> EdmDouble | FBoolean \<Rightarrow> EdmBoolean)"

definition define_azure_fields :: "IndexSchema \<Rightarrow> SearchField list" where
  "define_azure_fields schema =
     map (\<lambda>field.
            \<lparr>sf_name = field_name field, sf_type = field_type_mapping (field_type field),
             sf_filterable = filterable field, sf_searchable = searchable field,
             sf_sortable = sortable field, sf_key = primary_key field,
             sf_vector_search_dimensions = None\<rparr>)
         (schema_fields schema)
     @ (case vector_dimensions schema of
          Some n \<Rightarrow>
            if n \<noteq> 0
            then [\<lparr>sf_name = ''embedding'', sf_type = CollectionEdmSingle,
                   sf_filterable = False, sf_searchable = False, sf_sortable = False,
                   sf_key = False, sf_vector_search_dimensions = Some n\<rparr>]
            else []
        | None \<Rightarrow> [])"

text \<open>
  \<open>create_or_update_index\<close> of the service: the definition under the name is replaced;
  an index that existed keeps its units.
\<close>

definition create_index :: "string \<Rightarrow> IndexMetadata \<Rightarrow> 'e world \<Rightarrow> bool \<times> 'e world" where
  "create_index client_index_name index w =
     (if im_name index = client_index_name then
        (let azure_fields = define_azure_fields (index_schema (im_config index));
             units = (case search_service w (im_name index) of
                        Some ix \<Rightarrow> si_units ix | None \<Rightarrow> [])
         in (True,
             log_msg INFO (im_name index @ '' created'')
               (w\<lparr>search_service :=
                    (search_service w)(im_name index \<mapsto>
                       \<lparr>si_fields = azure_fields, si_units = units\<rparr>)\<rparr>)))
      else (False,
            log_msg ERROR
              (''Index name mismatch: '' @ im_name index @ '' != '' @ client_index_name @
               '', the index could not be created.'') w))"

definition key_field :: "'e SearchIndex \<Rightarrow> string option" where
  "key_field ix = (case filter sf_key (si_fields ix) of [] \<Rightarrow> None | f # _ \<Rightarrow> Some (sf_name f))"

definition get_primary_key :: "string \<Rightarrow> 'e world \<Rightarrow> string option result" where
  "get_primary_key index_name w =
     (case search_service w index_name of
        None \<Rightarrow> Inl (PyException (''Failed to get primary key for index '' @ index_name))
      | Some ix \<Rightarrow> Inr (key_field ix))"

text \<open>
  \<open>result.get(field)\<close> on a unit read back from the service, for the text-valued fields
  (a key field of the service is text-valued); any other name gives \<open>None\<close>.
\<close>

definition result_get :: "'e Document \<Rightarrow> string option \<Rightarrow> string option" where
  "result_get u field =
     (case field of
        None \<Rightarrow> None
      | Some f \<Rightarrow>
          if f = ''chunk_id'' then Some (doc_chunk_id u)
          else if f = ''document_id'' then Some (doc_document_id u)
          else if f = ''account_id'' then doc_account_id u
          else if f = ''user_id'' then doc_user_id u
          else if f = ''session_id'' then doc_session_id u
          else if f = ''content'' then Some (doc_content u)
          else None)"

text \<open>
  The service's upload action: a unit whose key is already stored replaces the stored one,
  any other is added. A batch with a unit that has no key value is rejected whole.
\<close>

fun upsert :: "('a \<Rightarrow> 'k) \<Rightarrow> 'a \<Rightarrow> 'a list \<Rightarrow> 'a list" where
  "upsert key u [] = [u]"
| "upsert key u (v # vs) = (if key v = key u then u # vs else v # upsert key u vs)"

definition upload_documents ::
  "string \<Rightarrow> 'e Document list \<Rightarrow> 'e world \<Rightarrow> IndexingResponse list result \<times> 'e world" where
  "upload_documents index_name documents_to_index w =
     (case search_service w index_name of
        None \<Rightarrow> (Inl (HttpResponseError (''index '' @ index_name @ '' not found'')), w)
      | Some ix \<Rightarrow>
          (let key = key_field ix in
           if list_all (\<lambda>u. result_get u key \<noteq> None) documents_to_index then
             (Inr (map (\<lambda>u. \<lparr>success = True, resp_document_id = fmt (result_get u key),
                               error_message = None\<rparr>) documents_to_index),
              w\<lparr>search_service :=
                   (search_service w)(index_name \<mapsto>
                      ix\<lparr>si_units :=
                            foldl (\<lambda>us u. upsert (\<lambda>v. result_get v key) u us)
                              (si_units ix) documents_to_index\<rparr>)\<rparr>)
           else (Inl (HttpResponseError ''document key is missing''), w)))"

text \<open>
  The service's delete action, as \<open>delete_document\<close> sends it: each action names the unit
  by the field \<open>action_field\<close>. The service resolves an action by its key field, so a
  batch on another field, or with an empty key, is rejected whole; deleting a key that is
  not stored succeeds.
\<close>

definition delete_actions ::
  "string \<Rightarrow> string \<Rightarrow> string option list \<Rightarrow> 'e world \<Rightarrow>
     IndexingResponse list result \<times> 'e world" where
  "delete_actions index_name action_field keys w =
     (case search_service w index_name of
        None \<Rightarrow> (Inl (HttpResponseError (''index '' @ index_name @ '' not found'')), w)
      | Some ix \<Rightarrow>
          (let key = key_field ix in
           if key = Some action_field \<and> None \<notin> set keys then
             (Inr (map (\<lambda>k. \<lparr>success = True, resp_document_id = fmt k,
                               error_message = None\<rparr>) keys),
              w\<lparr>search_service :=
                   (search_service w)(index_name \<mapsto>
                      ix\<lparr>si_units :=
                            filter (\<lambda>u. result_get u key \<notin> set keys) (si_units ix)\<rparr>)\<rparr>)
           else (Inl (HttpResponseError ''document key is missing''), w)))"

text \<open>
  The service's answer to \<open>search(filter="document_id eq '<id>'")\<close>: the stored units
  whose \<open>document_id\<close> is the id.
\<close>

definition search_document_id :: "string \<Rightarrow> string \<Rightarrow> 'e world \<Rightarrow> 'e Document list result" where
  "search_document_id index_name document_id w =
     (case search_service w index_name of
        None \<Rightarrow> Inl (HttpResponseError (''index '' @ index_name @ '' not found''))
      | Some ix \<Rightarrow> Inr (filter (\<lambda>u. doc_document_id u = document_id) (si_units ix)))"

definition list_document_chunks ::
  "string \<Rightarrow> string \<Rightarrow> 'e world \<Rightarrow> string option list result" where
  "list_document_chunks index_name document_id w =
     (case get_primary_key index_name w of
        Inl e \<Rightarrow> Inl e
      | Inr pk \<Rightarrow>
          (case search_document_id index_name document_id w of
             Inl e \<Rightarrow>
               Inl (PyException (''Failed to list document chunks for document '' @ document_id))
           | Inr results \<Rightarrow> Inr (map (\<lambda>r. result_get r pk) results)))"

definition delete_document ::
  "string \<Rightarrow> string \<Rightarrow> 'e world \<Rightarrow> IndexingResponse list result \<times> 'e world" where
  "delete_document index_name document_id w =
     (case list_document_chunks index_name document_id w of
        Inl e \<Rightarrow> (Inl e, w)
      | Inr chunk_ids \<Rightarrow>
          (case delete_actions index_name ''chunk_id'' chunk_ids w of
             (Inl e, w1) \<Rightarrow>
               (Inl (PyException (''Failed to delete chunks for document '' @ document_id)), w1)
           | (Inr results, w1) \<Rightarrow> (Inr results, w1)))"

definition convert_doc_to_search_record ::
  "string \<Rightarrow> 'e Document \<Rightarrow> 'e world \<Rightarrow> 'e Document option result \<times> 'e world" where
  "convert_doc_to_search_record index_name document w =
     (case search_service w index_name of
        None \<Rightarrow> (Inl (PyException (''Failed to get fields from index '' @ index_name)), w)
      | Some ix \<Rightarrow>
          (let field_names = map sf_name (si_fields ix) in
           case get_primary_key index_name w of
             Inl e \<Rightarrow> (Inl e, w)
           | Inr pk \<Rightarrow>
               if (case pk of Some k \<Rightarrow> k \<in> set field_names | None \<Rightarrow> False)
               then (Inr (Some document), w)
               else (Inr None,
                     log_msg ERROR
                       (''Primary key '' @ fmt pk @ '' not found in document '' @
                        doc_document_id document) w)))"

fun convert_all ::
  "string \<Rightarrow> 'e Document list \<Rightarrow> 'e world \<Rightarrow> 'e Document option list result \<times> 'e world" where
  "convert_all index_name [] w = (Inr [], w)"
| "convert_all index_name (d # ds) w =
     (case convert_doc_to_search_record index_name d w of
        (Inl e, w1) \<Rightarrow> (Inl e, w1)
      | (Inr r, w1) \<Rightarrow>
          (case convert_all index_name ds w1 of
             (Inl e, w2) \<Rightarrow> (Inl e, w2)
           | (Inr rs, w2) \<Rightarrow> (Inr (r # rs), w2)))"

definition index_documents ::
  "string \<Rightarrow> 'e Document list \<Rightarrow> 'e world \<Rightarrow> IndexingResponse list result \<times> 'e world" where
  "index_documents index_name docs w =
     (case get_primary_key index_name w of
        Inl e \<Rightarrow> (Inl e, w)
      | Inr _ \<Rightarrow>
          (case convert_all index_name docs w of
             (Inl e, w1) \<Rightarrow> (Inl e, w1)
           | (Inr converted, w1) \<Rightarrow>
               upload_documents index_name (List.map_filter (\<lambda>d. d) converted) w1))"

section \<open>IndexManager.create_new_index\<close>

definition IndexManager_get_index_config ::
  "string \<Rightarrow> 'e world \<Rightarrow> IndexConfig result \<times> 'e world" where
  "IndexManager_get_index_config customer_id w =
     (case get_index_config customer_id w of
        (Inl e, w1) \<Rightarrow> (Inl e, w1)
      | (Inr None, w1) \<Rightarrow>
          (Inl (IndexCreationError
                  (''Failed to retrieve index configuration for client '' @ customer_id)), w1)
      | (Inr (Some client_index_config), w1) \<Rightarrow> (Inr client_index_config, w1))"

text \<open>
  \<open>_create_unique_index_name\<close> compares the \<open>IndexingStrategyConfig\<close> object itself with
  the enum member \<open>IndexingStrategy.DEFAULT\<close>; objects of the two classes are never equal.
  Both branches assign the customer id.
\<close>

definition config_equals_strategy :: "IndexingStrategyConfig \<Rightarrow> IndexingStrategy \<Rightarrow> bool" where
  "config_equals_strategy c s = False"

definition create_unique_index_name :: "string \<Rightarrow> IndexConfig \<Rightarrow> string" where
  "create_unique_index_name customer_id client_index_config =
     (if config_equals_strategy (indexing_strategy_config client_index_config) DEFAULT
      then customer_id else customer_id)"

definition need_to_create_new_index :: "string \<Rightarrow> 'e world \<Rightarrow> bool \<times> 'e world" where
  "need_to_create_new_index index_name w =
     (let (found, w1) = check_index_exists index_name w in
      if found then (False, w1) else (True, w1))"

definition create_new_index ::
  "string \<Rightarrow> string \<Rightarrow> string \<Rightarrow> 'e world \<Rightarrow> unit result \<times> 'e world" where
  "create_new_index customer_id account_id user_id w =
     (case IndexManager_get_index_config customer_id w of
        (Inl e, w1) \<Rightarrow> (Inl e, w1)
      | (Inr client_index_config, w1) \<Rightarrow>
          (let index_name = create_unique_index_name customer_id client_index_config;
               (need, w2) = need_to_create_new_index index_name w1
           in if need then
                (let index_metadata = \<lparr>im_name = index_name, im_config = client_index_config\<rparr>;
                     (created, w3) = create_index index_name index_metadata w2;
                     index_record =
                       \<lparr>ir_customer_id = customer_id, ir_index_name = index_name,
                        ir_account_ids = [account_id], ir_document_ids = [],
                        ir_admin_id = user_id\<rparr>
                 in (Inr (),
                     w3\<lparr>indexes := insert_record (indexes w3) index_record index_name\<rparr>))
              else (Inr (), w2)))"

section \<open>The environment: files, loader, splitter, embedder, storage faults\<close>

datatype FileType = PDF | DOCX | TXT | CSV | XLSX | PPTX | HTML | JSON | MD

text \<open>
  The splitters that \<open>get_splitter\<close> can build for the strategy \<open>base\<close>, with their
  \<open>chunk_size\<close> and \<open>chunk_overlap\<close> (and the separator list of the recursive one).
\<close>

datatype splitter =
    MarkdownTextSplitter nat nat
  | RecursiveCharacterTextSplitter nat nat "string list"

text \<open>
  What the code takes from libraries and services without computing it: \<open>pathlib\<close>'s
  \<open>name\<close>, \<open>stem\<close> and \<open>suffix\<close> of a path, the size of a file (\<open>None\<close>: there is no such
  file), the loader, the splitter and the embedder, and whether the storage service fails
  on the deletion of a blob.
\<close>

record 'e env =
  path_name :: "string \<Rightarrow> string"
  path_stem :: "string \<Rightarrow> string"
  path_suffix :: "string \<Rightarrow> string"
  getsize :: "string \<Rightarrow> nat option"
  loader_load :: "string \<Rightarrow> LangchainDocument list"
  split_documents :: "splitter \<Rightarrow> LangchainDocument list \<Rightarrow> LangchainDocument list"
  embed_texts :: "string list \<Rightarrow> 'e list"
  delete_blob_fails :: "string \<Rightarrow> bool"

section \<open>AzureBlobStorage\<close>

definition container_name :: string where
  "container_name = ''rag-doc-manager-blob''"

definition rstrip_slash :: "string \<Rightarrow> string" where
  "rstrip_slash s = rev (dropWhile (\<lambda>c. c = CHR ''/'') (rev s))"

fun split_char :: "char \<Rightarrow> string \<Rightarrow> string list" where
  "split_char c [] = [[]]"
| "split_char c (x # xs) =
     (if x = c then [] # split_char c xs
      else (case split_char c xs of p # ps \<Rightarrow> (x # p) # ps | [] \<Rightarrow> [[x]]))"

fun join :: "string \<Rightarrow> string list \<Rightarrow> string" where
  "join sep [] = []"
| "join sep [x] = x"
| "join sep (x # y # ys) = x @ sep @ join sep (y # ys)"

fun list_index :: "'a list \<Rightarrow> 'a \<Rightarrow> nat" where
  "list_index [] x = 0"
| "list_index (y # ys) x = (if x = y then 0 else Suc (list_index ys x))"

definition extract_blob_name_from_url :: "string \<Rightarrow> string" where
  "extract_blob_name_from_url file_url =
     (let url = (if CHR ''?'' \<in> set file_url
                 then takeWhile (\<lambda>c. c \<noteq> CHR ''?'') file_url else file_url);
          parts = split_char CHR ''/'' url
      in if container_name \<in> set parts \<and> list_index parts container_name < length parts - 1
         then join ''/'' (drop (list_index parts container_name + 1) parts)
         else last parts)"

text \<open>
  \<open>upload_file\<close> opens the local file (and fails when there is none), then writes the blob
  with \<open>overwrite=True\<close>. The container bookkeeping of \<open>_ensure_container_exists\<close> is left
  out.
\<close>

definition upload_file ::
  "'e env \<Rightarrow> string \<Rightarrow> string \<Rightarrow> 'e world \<Rightarrow> string result \<times> 'e world" where
  "upload_file env file_path destination_prefix w =
     (let blob_name = rstrip_slash destination_prefix @ ''/'' @ path_name env file_path in
      case getsize env file_path of
        None \<Rightarrow>
          (Inl (FileNotFoundError file_path), log_msg ERROR (''Error uploading '' @ file_path) w)
      | Some _ \<Rightarrow>
          (Inr blob_name,
           log_msg INFO (''Uploaded '' @ file_path @ '' to '' @ blob_name)
             (w\<lparr>blobs := List.insert blob_name (blobs w)\<rparr>)))"

text \<open>
  \<open>delete_file\<close>: \<open>delete_blob\<close> either fails in the service (any exception: logged as an
  error), finds no such blob (\<open>ResourceNotFoundError\<close>: logged as a warning) or deletes
  it. Both failures are caught and turned into the result \<open>False\<close>.
\<close>

definition delete_file :: "'e env \<Rightarrow> string \<Rightarrow> 'e world \<Rightarrow> bool \<times> 'e world" where
  "delete_file env file_url w =
     (let blob_name = extract_blob_name_from_url file_url in
      if delete_blob_fails env blob_name
      then (False, log_msg ERROR (''Error deleting '' @ blob_name) w)
      else if blob_name \<in> set (blobs w)
      then (True,
            log_msg INFO (''Deleted '' @ blob_name)
              (w\<lparr>blobs := removeAll blob_name (blobs w)\<rparr>))
      else (False,
            log_msg WARNING (''Blob '' @ blob_name @ '' not found, nothing to delete'') w))"

section \<open>DocumentProcessor\<close>

definition FileType_value :: "FileType \<Rightarrow> string" where
  "FileType_value t =
     (case t of PDF \<Rightarrow> ''pdf'' | DOCX \<Rightarrow> ''docx'' | TXT \<Rightarrow> ''txt'' | CSV \<Rightarrow> ''csv''
      | XLSX \<Rightarrow> ''xlsx'' | PPTX \<Rightarrow> ''pptx'' | HTML \<Rightarrow> ''html'' | JSON \<Rightarrow> ''json'' | MD \<Rightarrow> ''md'')"

definition FileType_of_value :: "string \<Rightarrow> FileType option" where
  "FileType_of_value v =
     map_of (map (\<lambda>t. (FileType_value t, t)) [PDF, DOCX, TXT, CSV, XLSX, PPTX, HTML, JSON, MD]) v"

text \<open>\<open>str.lower\<close> on ASCII letters, and \<open>str.strip('.')\<close>.\<close>

definition py_lower :: "string \<Rightarrow> string" where
  "py_lower s =
     map (\<lambda>c. case map_of (zip ''ABCDEFGHIJKLMNOPQRSTUVWXYZ'' ''abcdefghijklmnopqrstuvwxyz'') c of
                 Some l \<Rightarrow> l | None \<Rightarrow> c) s"

definition strip_dots :: "string \<Rightarrow> string" where
  "strip_dots s =
     rev (dropWhile (\<lambda>c. c = CHR ''.'') (rev (dropWhile (\<lambda>c. c = CHR ''.'') s)))"

definition from_path :: "'e env \<Rightarrow> string \<Rightarrow> FileType result" where
  "from_path env path =
     (let extension = py_lower (strip_dots (path_suffix env path)) in
      case FileType_of_value extension of
        Some t \<Rightarrow> Inr t
      | None \<Rightarrow> Inl (ValueError (''Unsupported file type: '' @ extension)))"

text \<open>
  \<open>ChunkerFactory.get_splitter\<close> for the strategy \<open>base\<close>. For HTML the code calls
  \<open>HTMLSemanticPreservingSplitter(chunk_size=..., chunk_overlap=...)\<close>; that class takes
  the headers to split on as a required argument and has no \<open>chunk_size\<close> parameter, so
  the call raises \<open>TypeError\<close> and no splitter is built.
\<close>

definition get_splitter :: "FileType \<Rightarrow> nat \<Rightarrow> nat \<Rightarrow> splitter result" where
  "get_splitter file_type chunk_size chunk_overlap =
     (if file_type = MD then Inr (MarkdownTextSplitter chunk_size chunk_overlap)
      else if file_type \<in> {PDF, DOCX, TXT}
      then Inr (RecursiveCharacterTextSplitter chunk_size chunk_overlap
                  [[CHR 0x0A, CHR 0x0A], [CHR 0x0A], '' '', []])
      else if file_type = PPTX
      then Inr (RecursiveCharacterTextSplitter chunk_size chunk_overlap
                  [[CHR 0x0A], '' '', []])
      else if file_type = HTML
      then Inl (TypeError ''HTMLSemanticPreservingSplitter: unexpected keyword argument chunk_size'')
      else Inl (ValueError (''file type '' @ FileType_value file_type @ '' does not exist'')))"

text \<open>\<open>dict.update\<close> on a dictionary kept as an association list in insertion order.\<close>

fun dict_set :: "'k \<Rightarrow> 'v \<Rightarrow> ('k \<times> 'v) list \<Rightarrow> ('k \<times> 'v) list" where
  "dict_set k v [] = [(k, v)]"
| "dict_set k v (p # ps) = (if fst p = k then (k, v) # ps else p # dict_set k v ps)"

definition dict_update :: "('k \<times> 'v) list \<Rightarrow> ('k \<times> 'v) list \<Rightarrow> ('k \<times> 'v) list" where
  "dict_update d kvs = foldl (\<lambda>acc kv. dict_set (fst kv) (snd kv) acc) d kvs"

definition generate_chunk_id :: "string \<Rightarrow> nat \<Rightarrow> string" where
  "generate_chunk_id document_id chunk_index = document_id @ ''_chunk_'' @ str_nat chunk_index"

definition convert_to_documents ::
  "LangchainDocument list \<Rightarrow> string \<Rightarrow> string option \<Rightarrow> string option \<Rightarrow> bool \<Rightarrow>
     string option \<Rightarrow> 'e list \<Rightarrow> 'e Document list" where
  "convert_to_documents langchain_docs document_id account_id user_id is_global session_id
     embeddings =
     map (\<lambda>(idx, doc, embedding).
            \<lparr>doc_account_id = account_id, doc_user_id = user_id, doc_document_id = document_id,
             doc_chunk_id = generate_chunk_id document_id idx, doc_chunk_position = idx,
             doc_session_id = session_id, doc_content = page_content doc,
             doc_is_global = is_global, doc_metadata = lc_metadata doc,
             doc_embedding = embedding\<rparr>)
         (List.enumerate 0 (zip langchain_docs embeddings))"

text \<open>
  \<open>process_document\<close> with the processor as \<open>AzureDocumentManager\<close> builds it: strategy
  \<open>base\<close>, \<open>chunk_size = 50\<close>, \<open>chunk_overlap = 10\<close>.
\<close>

definition chunk_document ::
  "'e env \<Rightarrow> LangchainDocument list \<Rightarrow> FileType \<Rightarrow> LangchainDocument list result" where
  "chunk_document env langchain_docs file_type =
     (case get_splitter file_type 50 10 of
        Inl e \<Rightarrow> Inl e
      | Inr text_splitter \<Rightarrow> Inr (split_documents env text_splitter langchain_docs))"

text \<open>
  The first stages of \<open>process_document\<close>: load, add the file metadata, chunk. The result is
  the sequence of chunks in the order the splitter emits them.
\<close>

definition load_and_chunk ::
  "'e env \<Rightarrow> string \<Rightarrow> metadata option \<Rightarrow> LangchainDocument list result" where
  "load_and_chunk env file_path metadata =
     (case from_path env file_path of
        Inl e \<Rightarrow> Inl e
      | Inr file_type \<Rightarrow>
          (let loaded = loader_load env file_path;
               with_metadata =
                 (case metadata of
                    Some m \<Rightarrow>
                      if m \<noteq> []
                      then map (\<lambda>doc. doc\<lparr>lc_metadata := dict_update (lc_metadata doc) m\<rparr>) loaded
                      else loaded
                  | None \<Rightarrow> loaded);
               langchain_docs =
                 map (\<lambda>doc. doc\<lparr>lc_metadata :=
                                dict_update (lc_metadata doc)
                                  [(''file_type'', MStr (FileType_value file_type)),
                                   (''file_size'',
                                    case getsize env file_path of
                                      Some n \<Rightarrow> MInt n | None \<Rightarrow> MNone)]\<rparr>)
                     with_metadata
           in chunk_document env langchain_docs file_type))"

definition process_document ::
  "'e env \<Rightarrow> string \<Rightarrow> string option \<Rightarrow> string option \<Rightarrow> bool \<Rightarrow> string option \<Rightarrow>
     string option \<Rightarrow> metadata option \<Rightarrow> 'e Document list result" where
  "process_document env file_path account_id user_id is_global document_id session_id metadata =
     (let doc_id = (if truthy document_id then fmt document_id else path_stem env file_path) in
      case load_and_chunk env file_path metadata of
        Inl e \<Rightarrow> Inl e
      | Inr chunked_docs \<Rightarrow>
          (let chunk_texts = map page_content chunked_docs;
               embeddings = embed_texts env chunk_texts
           in Inr (convert_to_documents chunked_docs doc_id account_id user_id
                     is_global session_id embeddings)))"

section \<open>AzureDocumentManager\<close>

definition bind ::
  "'a result \<times> 'w \<Rightarrow> ('a \<Rightarrow> 'w \<Rightarrow> 'b result \<times> 'w) \<Rightarrow> 'b result \<times> 'w" where
  "bind m f = (case m of (Inl e, w) \<Rightarrow> (Inl e, w) | (Inr x, w) \<Rightarrow> f x w)"

text \<open>\<open>os.path.join\<close> of two parts and \<open>os.path.basename\<close>, on POSIX paths.\<close>

definition os_path_join :: "string \<Rightarrow> string \<Rightarrow> string" where
  "os_path_join a b =
     (if b \<noteq> [] \<and> hd b = CHR ''/'' then b
      else if a = [] \<or> last a = CHR ''/'' then a @ b
      else a @ ''/'' @ b)"

definition os_path_basename :: "string \<Rightarrow> string" where
  "os_path_basename p = rev (takeWhile (\<lambda>c. c \<noteq> CHR ''/'') (rev p))"

text \<open>
  The scope branch at the head of \<open>upload\<close>: the assertions on the identifiers and the
  destination prefix.
\<close>

definition upload_destination_prefix ::
  "string \<Rightarrow> string option \<Rightarrow> string option \<Rightarrow> string option \<Rightarrow> string option \<Rightarrow>
     string result" where
  "upload_destination_prefix customer account_id user_id session_id scope =
     (let destination_prefix = customer in
      if scope = Some ''account'' then
        (if truthy account_id
         then Inr (destination_prefix @ ''/'' @ fmt account_id)
         else Inl (AssertionError ''account ID must be provided for session-specific indexing''))
      else if scope = Some ''user'' then
        (if truthy user_id
         then Inr (destination_prefix @ ''/'' @ fmt account_id @ ''/'' @ fmt user_id)
         else Inl (AssertionError ''user ID must be provided for user-specific indexing''))
      else if scope = Some ''session'' then
        Inr (destination_prefix @ ''/'' @ fmt account_id @ ''/'' @ fmt user_id @ ''/'' @
             fmt session_id)
      else if scope = Some ''global'' then Inr destination_prefix
      else Inl (AssertionError []))"

text \<open>
  Building the \<open>DocumentRecord\<close>: \<open>os.path.getsize\<close> raises when the file is gone, and
  the model's validation rejects \<open>None\<close> for the three identifiers, which are declared
  \<open>str\<close>.
\<close>

definition make_document_record ::
  "'e env \<Rightarrow> string \<Rightarrow> string \<Rightarrow> string \<Rightarrow> string \<Rightarrow> string option \<Rightarrow> string option \<Rightarrow>
     string option \<Rightarrow> string option \<Rightarrow> string \<Rightarrow> 'e Document list \<Rightarrow> DocumentRecord result" where
  "make_document_record env document_id customer index_name file account_id user_id session_id
     scope destination_prefix chunked_documents =
     (case getsize env file of
        None \<Rightarrow> Inl (FileNotFoundError file)
      | Some n \<Rightarrow>
          (case (account_id, user_id, session_id) of
             (Some a, Some u, Some s) \<Rightarrow>
               Inr \<lparr>dr_document_id = document_id, dr_customer_id = customer,
                    dr_index_name = index_name, dr_account_id = a, dr_user_id = u,
                    dr_session_id = s, dr_scope = fmt scope,
                    dr_document_url = os_path_join destination_prefix file,
                    dr_document_name = os_path_basename file, dr_document_size = n,
                    dr_document_indexed = True,
                    dr_chunk_ids = map doc_chunk_id chunked_documents\<rparr>
           | _ \<Rightarrow> Inl (ValidationError ''Input should be a valid string'')))"

definition update_document_record :: "DocumentRecord \<Rightarrow> 'e world \<Rightarrow> bool \<times> 'e world" where
  "update_document_record document_record w =
     (let (collection, entry) =
            update_or_create_record (documents w) (dr_document_id document_record)
              document_record
      in (True, log_msg (fst entry) (snd entry) (w\<lparr>documents := collection\<rparr>)))"

text \<open>
  \<open>upload\<close> on the manager of tenant \<open>customer\<close>. Its first statement builds the search
  client, which changes no state. The per-unit results of \<open>index_documents\<close> and the result
  of \<open>_update_document_record\<close> are not looked at.
\<close>

definition upload ::
  "'e env \<Rightarrow> string \<Rightarrow> string \<Rightarrow> string \<Rightarrow> string option \<Rightarrow> string option \<Rightarrow>
     string option \<Rightarrow> string option \<Rightarrow> 'e world \<Rightarrow> unit result \<times> 'e world" where
  "upload env customer index_name file account_id user_id session_id scope w =
     (case upload_destination_prefix customer account_id user_id session_id scope of
        Inl e \<Rightarrow> (Inl e, w)
      | Inr destination_prefix \<Rightarrow>
          bind (upload_file env file destination_prefix w) (\<lambda>_ w1.
          bind (process_document env file account_id user_id
                  (if scope = Some ''global'' then True else False) None session_id None, w1)
            (\<lambda>chunked_documents w1.
          (case chunked_documents of
             [] \<Rightarrow> (Inl (IndexError ''list index out of range''), w1)
           | first # _ \<Rightarrow>
               (let document_id = doc_document_id first in
                bind (index_documents index_name chunked_documents w1) (\<lambda>_ w2.
                bind (make_document_record env document_id customer index_name file account_id
                        user_id session_id scope destination_prefix chunked_documents, w2)
                  (\<lambda>document_record w2.
                (let (_, w3) = update_document_record document_record w2 in
                 bind (update_docs_in_index_record customer document_id ''add'' w3)
                   (\<lambda>_ w4. (Inr (), w4))))))))))"

definition is_user_authorized :: "string \<Rightarrow> DocumentRecord option \<Rightarrow> bool" where
  "is_user_authorized user_id document_record =
     (case document_record of
        Some r \<Rightarrow> dr_user_id r = user_id
      | None \<Rightarrow> False)"

definition delete ::
  "'e env \<Rightarrow> string \<Rightarrow> string \<Rightarrow> string \<Rightarrow> 'e world \<Rightarrow> unit result \<times> 'e world" where
  "delete env customer_id document_id user_id w =
     (let document_record = get_record (documents w) document_id in
      case (is_user_authorized user_id document_record, document_record) of
        (True, Some r) \<Rightarrow>
          (let document_url = dr_document_url r;
               w1 = (if document_url \<noteq> [] then snd (delete_file env document_url w) else w)
           in bind (delete_document customer_id document_id w1) (\<lambda>_ w2.
              (let (collection, _) = delete_record (documents w2) document_id;
                   w3 = w2\<lparr>documents := collection\<rparr>
               in bind (update_docs_in_index_record customer_id document_id ''delete'' w3)
                    (\<lambda>_ w4. (Inr (), w4)))))
      | _ \<Rightarrow>
          (Inl (PyException
                  (''Document with id: '' @ document_id @
                   '' not found or user is not authorized to delete the document.'')), w))"

section \<open>AISearchQueryEngine._build_filter_expression\<close>

text \<open>
  The values of \<open>custom_filters\<close>: a text, a boolean, a number (a float is carried as the
  text \<open>str\<close> gives for it), a list of such values, or anything else.
\<close>

datatype atom = AStr string | ABool bool | AInt int | AFloat string | ANone

datatype filter_value = VAtom atom | VList "atom list" | VOther

definition str_int :: "int \<Rightarrow> string" where
  "str_int i = (if i < 0 then ''-'' @ str_nat (nat (- i)) else str_nat (nat i))"

definition py_str :: "atom \<Rightarrow> string" where
  "py_str a =
     (case a of AStr s \<Rightarrow> s | ABool b \<Rightarrow> (if b then ''True'' else ''False'')
      | AInt i \<Rightarrow> str_int i | AFloat s \<Rightarrow> s | ANone \<Rightarrow> ''None'')"

definition is_str :: "atom \<Rightarrow> bool" where
  "is_str a = (case a of AStr _ \<Rightarrow> True | _ \<Rightarrow> False)"

definition custom_condition :: "string \<times> filter_value \<Rightarrow> string list" where
  "custom_condition fv =
     (let field = fst fv in
      case snd fv of
        VAtom (AStr s) \<Rightarrow> [field @ '' eq '' @ quote s]
      | VAtom (ABool b) \<Rightarrow> [field @ '' eq '' @ py_lower (py_str (ABool b))]
      | VAtom (AInt i) \<Rightarrow> [field @ '' eq '' @ str_int i]
      | VAtom (AFloat s) \<Rightarrow> [field @ '' eq '' @ s]
      | VAtom ANone \<Rightarrow> []
      | VList vs \<Rightarrow>
          (case vs of
             [] \<Rightarrow> []
           | v # _ \<Rightarrow>
               if is_str v
               then [field @ '' in ('' @ join '', '' (map (\<lambda>v. quote (py_str v)) vs) @ '')'']
               else [field @ '' in ('' @ join '', '' (map py_str vs) @ '')''])
      | VOther \<Rightarrow> [])"

definition build_filter_expression ::
  "string option \<Rightarrow> string option \<Rightarrow> string option \<Rightarrow> string option \<Rightarrow>
     (string \<times> filter_value) list \<Rightarrow> string option result" where
  "build_filter_expression account_id user_id session_id scope custom_filters =
     (let filter_conditions = [] in
      case (if scope = Some ''account'' then
              (if truthy account_id
               then Inr (filter_conditions @ [''account_id eq '' @ quote (fmt account_id)])
               else Inl (AssertionError []))
            else if scope = Some ''user'' then
              (if truthy user_id
               then Inr (filter_conditions @ [''user_id eq '' @ quote (fmt user_id)])
               else Inl (AssertionError []))
            else if scope = Some ''session'' then
              (if truthy session_id
               then Inr (filter_conditions @ [''session_id eq '' @ quote (fmt session_id)])
               else Inl (AssertionError []))
            else
              (if filter_conditions \<noteq> []
               then Inr [''('' @ join '' and '' filter_conditions @ '') or '' @
                         ''is_global eq true'']
               else Inr (filter_conditions @ [''is_global eq true''])))
      of
        Inl e \<Rightarrow> Inl e
      | Inr scoped \<Rightarrow>
          (let filter_conditions =
                 scoped @ (if custom_filters \<noteq> []
                           then concat (map custom_condition custom_filters) else [])
           in if filter_conditions \<noteq> []
              then Inr (Some (join '' and '' filter_conditions))
              else Inr None))"

section \<open>Notions used in the statements\<close>

text \<open>
  What a deletion of document \<open>d\<close> leaves of the units of an index keyed by \<open>chunk_id\<close>:
  the units whose key is not the key of a unit of \<open>d\<close>.
\<close>

definition units_left :: "string \<Rightarrow> 'e Document list \<Rightarrow> 'e Document list" where
  "units_left d units =
     filter (\<lambda>u. doc_chunk_id u \<notin>
                  set (map doc_chunk_id (filter (\<lambda>v. doc_document_id v = d) units))) units"

section \<open>Example states\<close>

text \<open>
  A tenant \<open>acme\<close> after registration, and the same tenant after the upload of
  \<open>report.pdf\<close> by user \<open>u1\<close>. Embeddings are natural numbers here.
\<close>

definition acme_env :: "nat env" where
  "acme_env =
     \<lparr>path_name = (\<lambda>_. ''report.pdf''), path_stem = (\<lambda>_. ''report''),
      path_suffix = (\<lambda>_. ''.pdf''), getsize = (\<lambda>_. Some 2048),
      loader_load = (\<lambda>_. [\<lparr>page_content = ''alpha beta'', lc_metadata = []\<rparr>]),
      split_documents =
        (\<lambda>_ docs. concat (map (\<lambda>d. [d\<lparr>page_content := ''alpha''\<rparr>,
                                          d\<lparr>page_content := ''beta''\<rparr>]) docs)),
      embed_texts = map length, delete_blob_fails = (\<lambda>_. False)\<rparr>"

definition acme_config :: IndexConfig where
  "acme_config =
     \<lparr>index_schema =
        \<lparr>schema_fields =
           [\<lparr>field_name = ''chunk_id'', field_type = FString, filterable = True,
             searchable = False, sortable = False, primary_key = True\<rparr>,
            \<lparr>field_name = ''document_id'', field_type = FString, filterable = True,
             searchable = False, sortable = False, primary_key = False\<rparr>,
            \<lparr>field_name = ''content'', field_type = FString, filterable = False,
             searchable = True, sortable = False, primary_key = False\<rparr>,
            \<lparr>field_name = ''chunk_position'', field_type = FInteger, filterable = False,
             searchable = False, sortable = True, primary_key = False\<rparr>,
            \<lparr>field_name = ''is_global'', field_type = FBoolean, filterable = True,
             searchable = False, sortable = False, primary_key = False\<rparr>,
            \<lparr>field_name = ''created_at'', field_type = FDate, filterable = False,
             searchable = False, sortable = True, primary_key = False\<rparr>,
            \<lparr>field_name = ''boost'', field_type = FFloat, filterable = False,
             searchable = False, sortable = False, primary_key = False\<rparr>],
         vector_dimensions = Some 1536\<rparr>,
      indexing_strategy_config = \<lparr>strategy = DEFAULT, index_key = None\<rparr>,
      description = None\<rparr>"

definition acme_index :: "nat SearchIndex" where
  "acme_index =
     \<lparr>si_fields =
        [\<lparr>sf_name = ''chunk_id'', sf_type = EdmString, sf_filterable = True,
          sf_searchable = False, sf_sortable = False, sf_key = True,
          sf_vector_search_dimensions = None\<rparr>,
         \<lparr>sf_name = ''document_id'', sf_type = EdmString, sf_filterable = True,
          sf_searchable = False, sf_sortable = False, sf_key = False,
          sf_vector_search_dimensions = None\<rparr>,
         \<lparr>sf_name = ''content'', sf_type = EdmString, sf_filterable = False,
          sf_searchable = True, sf_sortable = False, sf_key = False,
          sf_vector_search_dimensions = None\<rparr>,
         \<lparr>sf_name = ''chunk_position'', sf_type = EdmInt32, sf_filterable = False,
          sf_searchable = False, sf_sortable = True, sf_key = False,
          sf_vector_search_dimensions = None\<rparr>,
         \<lparr>sf_name = ''is_global'', sf_type = EdmBoolean, sf_filterable = True,
          sf_searchable = False, sf_sortable = False, sf_key = False,
          sf_vector_search_dimensions = None\<rparr>,
         \<lparr>sf_name = ''created_at'', sf_type = EdmDateTimeOffset, sf_filterable = False,
          sf_searchable = False, sf_sortable = True, sf_key = False,
          sf_vector_search_dimensions = None\<rparr>,
         \<lparr>sf_name = ''boost'', sf_type = EdmDouble, sf_filterable = False,
          sf_searchable = False, sf_sortable = False, sf_key = False,
          sf_vector_search_dimensions = None\<rparr>,
         \<lparr>sf_name = ''embedding'', sf_type = CollectionEdmSingle, sf_filterable = False,
          sf_searchable = False, sf_sortable = False, sf_key = False,
          sf_vector_search_dimensions = Some 1536\<rparr>],
      si_units = []\<rparr>"

definition acme_customer :: Customer where
  "acme_customer = \<lparr>cust_customer_id = ''acme'', cust_index_config = Some acme_config\<rparr>"

definition acme_index_record :: "string list \<Rightarrow> IndexRecord" where
  "acme_index_record ids =
     \<lparr>ir_customer_id = ''acme'', ir_index_name = ''acme'', ir_account_ids = [''a1''],
      ir_document_ids = ids, ir_admin_id = ''admin''\<rparr>"

definition acme_world :: "nat world" where
  "acme_world =
     \<lparr>customers = [''acme'' \<mapsto> acme_customer],
      indexes = [''acme'' \<mapsto> acme_index_record []],
      documents = Map.empty,
      search_service = [''acme'' \<mapsto> acme_index],
      blobs = [], logs = []\<rparr>"

definition report_unit :: "nat \<Rightarrow> string \<Rightarrow> nat Document" where
  "report_unit i text =
     \<lparr>doc_account_id = Some ''a1'', doc_user_id = Some ''u1'', doc_document_id = ''report'',
      doc_chunk_id = generate_chunk_id ''report'' i, doc_chunk_position = i,
      doc_session_id = Some ''s1'', doc_content = text, doc_is_global = False,
      doc_metadata = [], doc_embedding = length text\<rparr>"

definition report_record :: DocumentRecord where
  "report_record =
     \<lparr>dr_document_id = ''report'', dr_customer_id = ''acme'', dr_index_name = ''acme'',
      dr_account_id = ''a1'', dr_user_id = ''u1'', dr_session_id = ''s1'', dr_scope = ''user'',
      dr_document_url = ''acme/a1/u1/report.pdf'', dr_document_name = ''report.pdf'',
      dr_document_size = 2048, dr_document_indexed = True,
      dr_chunk_ids = [''report_chunk_0'', ''report_chunk_1'']\<rparr>"

definition acme_world_report :: "nat world" where
  "acme_world_report =
     acme_world
       \<lparr>indexes := [''acme'' \<mapsto> acme_index_record [''report'']],
        documents := [''report'' \<mapsto> report_record],
        search_service :=
          [''acme'' \<mapsto> acme_index\<lparr>si_units := [report_unit 0 ''alpha'', report_unit 1 ''beta'']\<rparr>],
        blobs := [''acme/a1/u1/report.pdf'']\<rparr>"

text \<open>
  The tenant \<open>acme\<close> after one and after two uploads of \<open>report.pdf\<close> by user \<open>u1\<close>,
  and a state with a second tenant \<open>beta\<close> beside the tenant \<open>acme\<close> that holds the
  report.
\<close>

definition acme_world_uploaded :: "nat world" where
  "acme_world_uploaded =
     snd (upload acme_env ''acme'' ''acme'' ''report.pdf'' (Some ''a1'') (Some ''u1'')
            (Some ''s1'') (Some ''user'') acme_world)"

definition acme_world_uploaded_twice :: "nat world" where
  "acme_world_uploaded_twice =
     snd (upload acme_env ''acme'' ''acme'' ''report.pdf'' (Some ''a1'') (Some ''u1'')
            (Some ''s1'') (Some ''user'') acme_world_uploaded)"

definition beta_index_record :: IndexRecord where
  "beta_index_record =
     \<lparr>ir_customer_id = ''beta'', ir_index_name = ''beta'', ir_account_ids = [''b1''],
      ir_document_ids = [], ir_admin_id = ''admin''\<rparr>"

definition two_tenant_world :: "nat world" where
  "two_tenant_world =
     acme_world_report
       \<lparr>customers :=
          [''acme'' \<mapsto> acme_customer,
           ''beta'' \<mapsto> \<lparr>cust_customer_id = ''beta'', cust_index_config = Some acme_config\<rparr>],
        indexes :=
          [''acme'' \<mapsto> acme_index_record [''report''], ''beta'' \<mapsto> beta_index_record],
        search_service :=
          [''acme'' \<mapsto>
             acme_index\<lparr>si_units := [report_unit 0 ''alpha'', report_unit 1 ''beta'']\<rparr>,
           ''beta'' \<mapsto> acme_index]\<rparr>"

section \<open>The index registry\<close>

lemma list_remove_absent:
  "x \<notin> set xs \<Longrightarrow> list_remove xs x = Inl (ValueError ''list.remove(x): x not in list'')"
  by (simp add: list_remove_def)

lemma list_remove_present: "x \<in> set xs \<Longrightarrow> list_remove xs x = Inr (remove1 x xs)"
  by (simp add: list_remove_def)

lemma update_docs_delete_indexes:
  "indexes (snd (update_docs_in_index_record c d ''delete'' w)) c =
     map_option (\<lambda>r. r\<lparr>ir_document_ids := remove1 d (ir_document_ids r)\<rparr>) (indexes w c)"
  by (auto simp: update_docs_in_index_record_def get_record_def list_remove_def
      update_or_create_record_def log_msg_def remove1_idem split: option.splits)

lemma update_docs_frame:
  "customers (snd (update_docs_in_index_record c d a w)) = customers w \<and>
   documents (snd (update_docs_in_index_record c d a w)) = documents w \<and>
   search_service (snd (update_docs_in_index_record c d a w)) = search_service w \<and>
   blobs (snd (update_docs_in_index_record c d a w)) = blobs w \<and>
   (\<exists>entries. logs (snd (update_docs_in_index_record c d a w)) = logs w @ entries)"
  by (auto simp: update_docs_in_index_record_def get_record_def list_remove_def
      update_or_create_record_def log_msg_def Let_def split: option.splits sum.splits)

lemma update_docs_delete_result:
  "fst (update_docs_in_index_record c d ''delete'' w) =
     (case indexes w c of
        None \<Rightarrow> Inr False
      | Some r \<Rightarrow> if d \<in> set (ir_document_ids r) then Inr True
                  else Inl (ValueError ''list.remove(x): x not in list''))"
  by (auto simp: update_docs_in_index_record_def get_record_def list_remove_def
      update_or_create_record_def log_msg_def Let_def split: option.splits sum.splits)

lemma update_docs_add_effect:
  "indexes w c = Some r \<Longrightarrow>
   fst (update_docs_in_index_record c d ''add'' w) = Inr True \<and>
   indexes (snd (update_docs_in_index_record c d ''add'' w)) =
     (indexes w)(c \<mapsto> r\<lparr>ir_document_ids := ir_document_ids r @ [d]\<rparr>)"
  by (simp add: update_docs_in_index_record_def get_record_def update_or_create_record_def
      log_msg_def)

lemma update_docs_other_index:
  "c' \<noteq> c \<Longrightarrow> indexes (snd (update_docs_in_index_record c d a w)) c' = indexes w c'"
  by (auto simp: update_docs_in_index_record_def get_record_def list_remove_def
      update_or_create_record_def log_msg_def Let_def split: option.splits sum.splits)

text \<open>
  Claim C4. When the registry record of the tenant's index is absent,
  \<open>update_docs_in_index_record\<close> does not raise: it returns \<open>False\<close> and logs a warning,
  writing nothing else. When the record is present, \<open>add\<close> appends the document id to
  \<open>document_ids\<close> and returns \<open>True\<close>, and \<open>delete\<close> of an id that is listed removes it
  (its first occurrence, as \<open>list.remove\<close> does) and returns \<open>True\<close>.
\<close>

theorem update_docs_in_index_record_results:
  "(indexes w customer_id = None \<longrightarrow>
      update_docs_in_index_record customer_id document_id action w =
        (Inr False,
         log_msg WARNING
           (''Index record not found for index name '' @ customer_id @
            ''. Could not update record.'') w)) \<and>
   (indexes w customer_id = Some r \<longrightarrow>
      fst (update_docs_in_index_record customer_id document_id ''add'' w) = Inr True \<and>
      indexes (snd (update_docs_in_index_record customer_id document_id ''add'' w)) =
        (indexes w)(customer_id \<mapsto> r\<lparr>ir_document_ids := ir_document_ids r @ [document_id]\<rparr>)) \<and>
   (indexes w customer_id = Some r \<and> document_id \<in> set (ir_document_ids r) \<longrightarrow>
      fst (update_docs_in_index_record customer_id document_id ''delete'' w) = Inr True \<and>
      indexes (snd (update_docs_in_index_record customer_id document_id ''delete'' w)) =
        (indexes w)(customer_id \<mapsto>
           r\<lparr>ir_document_ids := remove1 document_id (ir_document_ids r)\<rparr>))"
  by (simp add: update_docs_in_index_record_def get_record_def list_remove_present
      update_or_create_record_def log_msg_def)

theorem update_docs_in_index_record_results_witness:
  "indexes (acme_world\<lparr>indexes := Map.empty\<rparr>) ''acme'' = None \<and>
   fst (update_docs_in_index_record ''acme'' ''report'' ''add''
          (acme_world\<lparr>indexes := Map.empty\<rparr>)) = Inr False \<and>
   indexes acme_world_report ''acme'' = Some (acme_index_record [''report'']) \<and>
   ''report'' \<in> set (ir_document_ids (acme_index_record [''report''])) \<and>
   fst (update_docs_in_index_record ''acme'' ''notes'' ''add'' acme_world_report) = Inr True \<and>
   indexes (snd (update_docs_in_index_record ''acme'' ''notes'' ''add'' acme_world_report))
     ''acme'' = Some (acme_index_record [''report'', ''notes'']) \<and>
   fst (update_docs_in_index_record ''acme'' ''report'' ''delete'' acme_world_report) = Inr True \<and>
   indexes (snd (update_docs_in_index_record ''acme'' ''report'' ''delete'' acme_world_report))
     ''acme'' = Some (acme_index_record [])"
  using update_docs_in_index_record_results
          [where w = "acme_world\<lparr>indexes := Map.empty\<rparr>" and customer_id = "''acme''"
             and document_id = "''report''" and action = "''add''"
             and r = "acme_index_record []"]
        update_docs_in_index_record_results
          [where w = acme_world_report and customer_id = "''acme''"
             and r = "acme_index_record [''report'']" and document_id = "''notes''"]
        update_docs_in_index_record_results
          [where w = acme_world_report and customer_id = "''acme''"
             and r = "acme_index_record [''report'']" and document_id = "''report''"]
  by (simp add: acme_world_report_def acme_world_def acme_index_record_def)

text \<open>
  Claim C10. When the registry record exists and its \<open>document_ids\<close> does not contain the
  document id, \<open>update_docs_in_index_record(document_id, 'delete')\<close> raises (the
  \<open>ValueError\<close> of the unguarded \<open>list.remove\<close>) instead of returning a boolean, and
  nothing is written: the state is the one before the call.
\<close>

theorem update_docs_delete_unlisted_raises:
  assumes "indexes w customer_id = Some r" and "document_id \<notin> set (ir_document_ids r)"
  shows "update_docs_in_index_record customer_id document_id ''delete'' w =
           (Inl (ValueError ''list.remove(x): x not in list''), w)"
  using assms by (simp add: update_docs_in_index_record_def get_record_def list_remove_absent)

theorem update_docs_delete_unlisted_raises_witness:
  "indexes acme_world ''acme'' = Some (acme_index_record []) \<and>
   ''ghost'' \<notin> set (ir_document_ids (acme_index_record [])) \<and>
   update_docs_in_index_record ''acme'' ''ghost'' ''delete'' acme_world =
     (Inl (ValueError ''list.remove(x): x not in list''), acme_world)"
  using update_docs_delete_unlisted_raises
          [where w = acme_world and customer_id = "''acme''" and r = "acme_index_record []"
             and document_id = "''ghost''"]
  by (simp add: acme_world_def acme_index_record_def)

section \<open>Tenant registration and index creation\<close>

lemma customer_exists_registered:
  "customers w cid = Some r \<Longrightarrow> cust_customer_id r = cid \<Longrightarrow> customer_exists cid w = (True, w)"
  by (simp add: customer_exists_def get_record_def)

lemma get_index_config_stored:
  "customers w c = Some r \<Longrightarrow> cust_customer_id r = c \<Longrightarrow> cust_index_config r = Some cfg \<Longrightarrow>
   get_index_config c w = (Inr (Some cfg), w)"
  by (simp add: get_index_config_def customer_exists_registered get_record_def)

lemma get_index_config_none:
  "\<not> (\<exists>r cfg. customers w c = Some r \<and> cust_customer_id r = c \<and> cust_index_config r = Some cfg) \<Longrightarrow>
   fst (get_index_config c w) = Inr None \<and>
   (\<exists>entries. snd (get_index_config c w) = w\<lparr>logs := logs w @ entries\<rparr>)"
  by (auto simp: get_index_config_def customer_exists_def get_record_def log_msg_def
      split: option.splits)

text \<open>
  Claim C9. Registering a tenant id that is already registered returns \<open>False\<close> and
  leaves the customer collection as it was; the stored record, with its index config, is
  still the one under the id. Only an error line is logged.
\<close>

theorem register_existing_customer_fails:
  assumes "customers w customer_id = Some r" and "cust_customer_id r = customer_id"
  shows "register_customer customer_id index_config w =
           (False,
            log_msg ERROR (''Customer with name '' @ quote customer_id @ '' already exists'') w) \<and>
         customers (snd (register_customer customer_id index_config w)) = customers w \<and>
         customers (snd (register_customer customer_id index_config w)) customer_id = Some r"
  using assms by (simp add: register_customer_def customer_exists_registered log_msg_def)

theorem register_existing_customer_fails_witness:
  "customers acme_world ''acme'' = Some acme_customer \<and>
   cust_customer_id acme_customer = ''acme'' \<and>
   fst (register_customer ''acme'' (acme_config\<lparr>description := Some ''second''\<rparr>) acme_world)
     = False \<and>
   customers
     (snd (register_customer ''acme'' (acme_config\<lparr>description := Some ''second''\<rparr>) acme_world))
     ''acme'' = Some acme_customer"
  using register_existing_customer_fails
          [where w = acme_world and customer_id = "''acme''" and r = acme_customer
             and index_config = "acme_config\<lparr>description := Some ''second''\<rparr>"]
  by (simp add: acme_world_def acme_customer_def log_msg_def)

text \<open>
  Claim C8. \<open>create_new_index\<close> fails with the configuration-not-found error
  (\<open>IndexCreationError\<close>) when the tenant has no stored index config, creating no index and
  inserting no record. Otherwise the index name is the tenant id, whatever the strategy
  in the config. When the search service has no index of that name, the index is created
  from the field mappings of the config: one field per schema field, in the schema's
  order, with the same name and flags, the key flag where the schema marks the primary
  key, and the type \<open>string\<close>, \<open>date\<close>, \<open>integer\<close>, \<open>float\<close>, \<open>boolean\<close> mapped to
  \<open>Edm.String\<close>, \<open>Edm.DateTimeOffset\<close>, \<open>Edm.Int32\<close>, \<open>Edm.Double\<close>, \<open>Edm.Boolean\<close>,
  followed by the vector field \<open>embedding\<close> of the configured dimensions when the config
  has any; and an \<open>IndexRecord\<close> with an empty \<open>document_ids\<close> is inserted under the
  name. When the index exists, nothing is created or inserted and the state is left as it
  was.
\<close>

theorem create_new_index_cases:
  "(\<not> (\<exists>r cfg. customers w customer_id = Some r \<and> cust_customer_id r = customer_id \<and>
               cust_index_config r = Some cfg) \<longrightarrow>
      fst (create_new_index customer_id account_id user_id w) =
        Inl (IndexCreationError
               (''Failed to retrieve index configuration for client '' @ customer_id)) \<and>
      search_service (snd (create_new_index customer_id account_id user_id w)) = search_service w \<and>
      indexes (snd (create_new_index customer_id account_id user_id w)) = indexes w) \<and>
   (customers w customer_id = Some r \<and> cust_customer_id r = customer_id \<and>
    cust_index_config r = Some cfg \<longrightarrow>
      create_unique_index_name customer_id cfg = customer_id \<and>
      fst (create_new_index customer_id account_id user_id w) = Inr () \<and>
      (search_service w customer_id = None \<longrightarrow>
         search_service (snd (create_new_index customer_id account_id user_id w)) =
           (search_service w)(customer_id \<mapsto>
              \<lparr>si_fields =
                 map (\<lambda>f. \<lparr>sf_name = field_name f,
                            sf_type =
                              (case field_type f of
                                 FString \<Rightarrow> EdmString
                               | FDate \<Rightarrow> EdmDateTimeOffset
                               | FInteger \<Rightarrow> EdmInt32
                               | FFloat \<Rightarrow> EdmDouble
                               | FBoolean \<Rightarrow> EdmBoolean),
                            sf_filterable = filterable f, sf_searchable = searchable f,
                            sf_sortable = sortable f, sf_key = primary_key f,
                            sf_vector_search_dimensions = None\<rparr>)
                   (schema_fields (index_schema cfg)) @
                 (case vector_dimensions (index_schema cfg) of
                    Some n \<Rightarrow>
                      if n \<noteq> 0
                      then [\<lparr>sf_name = ''embedding'', sf_type = CollectionEdmSingle,
                             sf_filterable = False, sf_searchable = False,
                             sf_sortable = False, sf_key = False,
                             sf_vector_search_dimensions = Some n\<rparr>]
                      else []
                  | None \<Rightarrow> []),
               si_units = []\<rparr>) \<and>
         indexes (snd (create_new_index customer_id account_id user_id w)) =
           (indexes w)(customer_id \<mapsto>
              \<lparr>ir_customer_id = customer_id, ir_index_name = customer_id,
               ir_account_ids = [account_id], ir_document_ids = [],
               ir_admin_id = user_id\<rparr>)) \<and>
      (search_service w customer_id \<noteq> None \<longrightarrow>
         snd (create_new_index customer_id account_id user_id w) = w))"
proof (intro conjI impI)
  assume h: "\<not> (\<exists>r cfg. customers w customer_id = Some r \<and> cust_customer_id r = customer_id \<and>
               cust_index_config r = Some cfg)"
  from get_index_config_none [OF h] obtain entries where
    g: "fst (get_index_config customer_id w) = Inr None"
       "snd (get_index_config customer_id w) = w\<lparr>logs := logs w @ entries\<rparr>" by blast
  then have eq: "get_index_config customer_id w = (Inr None, w\<lparr>logs := logs w @ entries\<rparr>)"
    by (metis prod.collapse)
  show "fst (create_new_index customer_id account_id user_id w) =
        Inl (IndexCreationError
               (''Failed to retrieve index configuration for client '' @ customer_id))"
    by (simp add: create_new_index_def IndexManager_get_index_config_def eq)
  show "search_service (snd (create_new_index customer_id account_id user_id w)) = search_service w"
    by (simp add: create_new_index_def IndexManager_get_index_config_def eq)
  show "indexes (snd (create_new_index customer_id account_id user_id w)) = indexes w"
    by (simp add: create_new_index_def IndexManager_get_index_config_def eq)
next
  assume h: "customers w customer_id = Some r \<and> cust_customer_id r = customer_id \<and>
    cust_index_config r = Some cfg"
  then have eq: "get_index_config customer_id w = (Inr (Some cfg), w)"
    by (simp add: get_index_config_stored)
  show "create_unique_index_name customer_id cfg = customer_id"
    by (simp add: create_unique_index_name_def)
  show "fst (create_new_index customer_id account_id user_id w) = Inr ()"
    by (simp add: create_new_index_def IndexManager_get_index_config_def eq
        need_to_create_new_index_def check_index_exists_def create_index_def Let_def
        create_unique_index_name_def split: option.splits prod.splits)
  {
    assume a: "search_service w customer_id = None"
    show "search_service (snd (create_new_index customer_id account_id user_id w)) =
           (search_service w)(customer_id \<mapsto>
              \<lparr>si_fields =
                 map (\<lambda>f. \<lparr>sf_name = field_name f,
                            sf_type =
                              (case field_type f of
                                 FString \<Rightarrow> EdmString
                               | FDate \<Rightarrow> EdmDateTimeOffset
                               | FInteger \<Rightarrow> EdmInt32
                               | FFloat \<Rightarrow> EdmDouble
                               | FBoolean \<Rightarrow> EdmBoolean),
                            sf_filterable = filterable f, sf_searchable = searchable f,
                            sf_sortable = sortable f, sf_key = primary_key f,
                            sf_vector_search_dimensions = None\<rparr>)
                   (schema_fields (index_schema cfg)) @
                 (case vector_dimensions (index_schema cfg) of
                    Some n \<Rightarrow>
                      if n \<noteq> 0
                      then [\<lparr>sf_name = ''embedding'', sf_type = CollectionEdmSingle,
                             sf_filterable = False, sf_searchable = False,
                             sf_sortable = False, sf_key = False,
                             sf_vector_search_dimensions = Some n\<rparr>]
                      else []
                  | None \<Rightarrow> []),
               si_units = []\<rparr>)"
      using a by (simp add: create_new_index_def IndexManager_get_index_config_def eq
        need_to_create_new_index_def check_index_exists_def create_index_def Let_def
        create_unique_index_name_def log_msg_def define_azure_fields_def
        field_type_mapping_def)
    show "indexes (snd (create_new_index customer_id account_id user_id w)) =
           (indexes w)(customer_id \<mapsto>
              \<lparr>ir_customer_id = customer_id, ir_index_name = customer_id,
               ir_account_ids = [account_id], ir_document_ids = [],
               ir_admin_id = user_id\<rparr>)"
      using a by (simp add: create_new_index_def IndexManager_get_index_config_def eq
        need_to_create_new_index_def check_index_exists_def create_index_def Let_def
        create_unique_index_name_def log_msg_def insert_record_def)
  }
  {
    assume a: "search_service w customer_id \<noteq> None"
    show "snd (create_new_index customer_id account_id user_id w) = w"
      using a by (auto simp add: create_new_index_def IndexManager_get_index_config_def eq
        need_to_create_new_index_def check_index_exists_def Let_def
        create_unique_index_name_def)
  }
qed

theorem create_new_index_cases_witness:
  "fst (create_new_index ''acme'' ''a1'' ''admin'' (acme_world\<lparr>customers := Map.empty\<rparr>)) =
     Inl (IndexCreationError ''Failed to retrieve index configuration for client acme'') \<and>
   customers acme_world ''acme'' = Some acme_customer \<and>
   cust_index_config acme_customer = Some (acme_config\<lparr>indexing_strategy_config :=
                                              \<lparr>strategy = DEFAULT, index_key = None\<rparr>\<rparr>) \<and>
   search_service (acme_world\<lparr>search_service := Map.empty, indexes := Map.empty\<rparr>) ''acme''
     = None \<and>
   search_service
     (snd (create_new_index ''acme'' ''a1'' ''admin''
             (acme_world\<lparr>search_service := Map.empty, indexes := Map.empty\<rparr>))) ''acme''
     = Some acme_index \<and>
   indexes
     (snd (create_new_index ''acme'' ''a1'' ''admin''
             (acme_world\<lparr>search_service := Map.empty, indexes := Map.empty\<rparr>))) ''acme''
     = Some (acme_index_record []) \<and>
   create_new_index ''acme'' ''a1'' ''admin'' acme_world_report = (Inr (), acme_world_report)"
  using create_new_index_cases
          [where w = "acme_world\<lparr>customers := Map.empty\<rparr>" and customer_id = "''acme''"
             and account_id = "''a1''" and user_id = "''admin''"]
        create_new_index_cases
          [where w = "acme_world\<lparr>search_service := Map.empty, indexes := Map.empty\<rparr>"
             and customer_id = "''acme''" and r = acme_customer and cfg = acme_config
             and account_id = "''a1''" and user_id = "''admin''"]
        create_new_index_cases
          [where w = acme_world_report and customer_id = "''acme''" and r = acme_customer
             and cfg = acme_config and account_id = "''a1''" and user_id = "''admin''"]
  by (simp add: acme_world_report_def acme_world_def acme_customer_def acme_index_record_def
      acme_index_def acme_config_def prod_eq_iff)

section \<open>Deleting a document\<close>

lemma delete_file_frame:
  "customers (snd (delete_file env url w)) = customers w \<and>
   indexes (snd (delete_file env url w)) = indexes w \<and>
   documents (snd (delete_file env url w)) = documents w \<and>
   search_service (snd (delete_file env url w)) = search_service w"
  by (simp add: delete_file_def Let_def log_msg_def)

lemma delete_file_failure_logged:
  "fst (delete_file env url w) = False \<Longrightarrow>
   \<exists>lvl msg. lvl \<noteq> INFO \<and> logs (snd (delete_file env url w)) = logs w @ [(lvl, msg)]"
  by (auto simp: delete_file_def Let_def log_msg_def split: if_splits)

lemma list_document_chunks_keyed:
  "search_service w c = Some ix \<Longrightarrow> key_field ix = Some ''chunk_id'' \<Longrightarrow>
   list_document_chunks c d w =
     Inr (map (\<lambda>u. Some (doc_chunk_id u)) (filter (\<lambda>u. doc_document_id u = d) (si_units ix)))"
  by (simp add: list_document_chunks_def get_primary_key_def search_document_id_def
      result_get_def)

lemma units_left_none: "u \<in> set (units_left d units) \<Longrightarrow> doc_document_id u \<noteq> d"
  by (auto simp: units_left_def)

lemma delete_document_keyed:
  assumes "search_service w c = Some ix" and "key_field ix = Some ''chunk_id''"
  shows "\<exists>results. delete_document c d w =
           (Inr results,
            w\<lparr>search_service :=
                 (search_service w)(c \<mapsto> ix\<lparr>si_units := units_left d (si_units ix)\<rparr>)\<rparr>)"
proof -
  have "None \<notin> set (map (\<lambda>u. Some (doc_chunk_id u))
                       (filter (\<lambda>u. doc_document_id u = d) (si_units ix)))"
    by auto
  moreover have "filter (\<lambda>u. result_get u (Some ''chunk_id'') \<notin>
        set (map (\<lambda>u. Some (doc_chunk_id u)) (filter (\<lambda>u. doc_document_id u = d) (si_units ix))))
      (si_units ix) = units_left d (si_units ix)"
    unfolding units_left_def by (rule filter_cong) (auto simp: result_get_def)
  ultimately show ?thesis
    using assms
    by (simp add: delete_document_def list_document_chunks_keyed delete_actions_def)
qed

text \<open>
  An authorized delete on a tenant index keyed by \<open>chunk_id\<close>: after the blob step, the
  units of the document and its record are removed, and the outcome is the one of the
  registry update.
\<close>

lemma delete_authorized:
  fixes env :: "'e env" and w :: "'e world"
  assumes rec: "documents w d = Some r" and own: "dr_user_id r = uid"
    and ix: "search_service w c = Some ix" and key: "key_field ix = Some ''chunk_id''"
  defines "w1 \<equiv> (if dr_document_url r \<noteq> [] then snd (delete_file env (dr_document_url r) w)
                   else w)"
  defines "w3 \<equiv> w1\<lparr>search_service :=
                      (search_service w)(c \<mapsto> ix\<lparr>si_units := units_left d (si_units ix)\<rparr>),
                    documents := (documents w)(d := None)\<rparr>"
  shows "delete env c d uid w =
           (case fst (update_docs_in_index_record c d ''delete'' w3) of
              Inl e \<Rightarrow> Inl e | Inr _ \<Rightarrow> Inr (),
            snd (update_docs_in_index_record c d ''delete'' w3))"
proof -
  have f: "search_service w1 = search_service w" "documents w1 = documents w"
    by (simp_all add: w1_def delete_file_frame)
  from delete_document_keyed [of w1 c ix d] ix key f obtain results where
    dd: "delete_document c d w1 =
           (Inr results,
            w1\<lparr>search_service :=
                  (search_service w)(c \<mapsto> ix\<lparr>si_units := units_left d (si_units ix)\<rparr>)\<rparr>)"
    by auto
  have u: "w1\<lparr>search_service :=
                (search_service w)(c \<mapsto> ix\<lparr>si_units := units_left d (si_units ix)\<rparr>),
              documents := (documents w)(d := None)\<rparr> = w3"
    by (simp add: w3_def)
  have "delete env c d uid w =
          bind (delete_document c d w1) (\<lambda>_ w2.
              (let (collection, _) = delete_record (documents w2) d;
                   w3 = w2\<lparr>documents := collection\<rparr>
               in bind (update_docs_in_index_record c d ''delete'' w3)
                    (\<lambda>_ w4. (Inr (), w4))))"
    using rec own by (simp add: delete_def get_record_def is_user_authorized_def w1_def)
  also have "\<dots> = (case fst (update_docs_in_index_record c d ''delete'' w3) of
              Inl e \<Rightarrow> Inl e | Inr _ \<Rightarrow> Inr (),
            snd (update_docs_in_index_record c d ''delete'' w3))"
    by (simp add: dd bind_def delete_record_def f u split: prod.splits sum.splits)
  finally show ?thesis .
qed

lemma delete_authorized_state:
  fixes env :: "'e env" and w :: "'e world"
  assumes rec: "documents w d = Some r" and own: "dr_user_id r = uid"
    and ix: "search_service w c = Some ix" and key: "key_field ix = Some ''chunk_id''"
  defines "w' \<equiv> snd (delete env c d uid w)"
  shows "documents w' = (documents w)(d := None)"
    and "search_service w' =
           (search_service w)(c \<mapsto> ix\<lparr>si_units := units_left d (si_units ix)\<rparr>)"
    and "indexes w' c =
           map_option (\<lambda>ir. ir\<lparr>ir_document_ids := remove1 d (ir_document_ids ir)\<rparr>) (indexes w c)"
    and "customers w' = customers w"
    and "fst (delete env c d uid w) =
           (case indexes w c of
              None \<Rightarrow> Inr ()
            | Some ir \<Rightarrow> if d \<in> set (ir_document_ids ir) then Inr ()
                         else Inl (ValueError ''list.remove(x): x not in list''))"
    and "\<exists>entries.
           logs w' =
             logs (if dr_document_url r \<noteq> [] then snd (delete_file env (dr_document_url r) w)
                   else w) @ entries"
    and "\<forall>c'. c' \<noteq> c \<longrightarrow> indexes w' c' = indexes w c'"
proof -
  define w1 where
    "w1 = (if dr_document_url r \<noteq> [] then snd (delete_file env (dr_document_url r) w) else w)"
  define w3 where
    "w3 = w1\<lparr>search_service :=
                (search_service w)(c \<mapsto> ix\<lparr>si_units := units_left d (si_units ix)\<rparr>),
              documents := (documents w)(d := None)\<rparr>"
  have d: "delete env c d uid w =
           (case fst (update_docs_in_index_record c d ''delete'' w3) of
              Inl e \<Rightarrow> Inl e | Inr _ \<Rightarrow> Inr (),
            snd (update_docs_in_index_record c d ''delete'' w3))"
    unfolding w3_def w1_def by (rule delete_authorized [OF rec own ix key])
  have i1: "indexes w1 = indexes w" "customers w1 = customers w"
    by (simp_all add: w1_def delete_file_frame)
  have i3: "indexes w3 = indexes w" "customers w3 = customers w" "logs w3 = logs w1"
    "documents w3 = (documents w)(d := None)"
    "search_service w3 =
       (search_service w)(c \<mapsto> ix\<lparr>si_units := units_left d (si_units ix)\<rparr>)"
    by (simp_all add: w3_def i1)
  from d have w': "w' = snd (update_docs_in_index_record c d ''delete'' w3)"
    by (simp add: w'_def)
  show "documents w' = (documents w)(d := None)"
    using update_docs_frame [of c d "''delete''" w3] by (simp add: w' i3)
  show "search_service w' =
           (search_service w)(c \<mapsto> ix\<lparr>si_units := units_left d (si_units ix)\<rparr>)"
    using update_docs_frame [of c d "''delete''" w3] by (simp add: w' i3)
  show "indexes w' c =
           map_option (\<lambda>ir. ir\<lparr>ir_document_ids := remove1 d (ir_document_ids ir)\<rparr>) (indexes w c)"
    by (simp add: w' update_docs_delete_indexes i3)
  show "customers w' = customers w"
    using update_docs_frame [of c d "''delete''" w3] by (simp add: w' i3)
  show "fst (delete env c d uid w) =
           (case indexes w c of
              None \<Rightarrow> Inr ()
            | Some ir \<Rightarrow> if d \<in> set (ir_document_ids ir) then Inr ()
                         else Inl (ValueError ''list.remove(x): x not in list''))"
    by (simp add: d update_docs_delete_result i3 split: option.splits)
  show "\<exists>entries.
           logs w' =
             logs (if dr_document_url r \<noteq> [] then snd (delete_file env (dr_document_url r) w)
                   else w) @ entries"
    using update_docs_frame [of c d "''delete''" w3] by (simp add: w' i3 w1_def)
  show "\<forall>c'. c' \<noteq> c \<longrightarrow> indexes w' c' = indexes w c'"
    by (simp add: w' update_docs_other_index i3)
qed

lemma delete_refused:
  "documents w d = None \<or> (\<exists>r. documents w d = Some r \<and> dr_user_id r \<noteq> uid) \<Longrightarrow>
   delete env c d uid w =
     (Inl (PyException
             (''Document with id: '' @ d @
              '' not found or user is not authorized to delete the document.'')), w)"
  by (auto simp: delete_def get_record_def is_user_authorized_def)

lemma acme_report_key:
  "key_field (acme_index\<lparr>si_units := [report_unit 0 ''alpha'', report_unit 1 ''beta'']\<rparr>) =
     Some ''chunk_id''"
  by (simp add: key_field_def acme_index_def)

lemma units_left_all:
  "\<forall>u \<in> set units. doc_document_id u = d \<Longrightarrow> units_left d units = []"
  by (auto simp: units_left_def filter_empty_conv)

lemma acme_report_units_left:
  "units_left ''report'' [report_unit 0 ''alpha'', report_unit 1 ''beta''] = []"
  by (rule units_left_all) (simp add: report_unit_def)

lemma acme_report_facts:
  "documents acme_world_report ''report'' = Some report_record"
  "dr_user_id report_record = ''u1''"
  "search_service acme_world_report ''acme'' =
     Some (acme_index\<lparr>si_units := [report_unit 0 ''alpha'', report_unit 1 ''beta'']\<rparr>)"
  "indexes acme_world_report ''acme'' = Some (acme_index_record [''report''])"
  "dr_document_url report_record \<noteq> []"
  by (simp_all add: acme_world_report_def report_record_def)

text \<open>
  Claim C6. A delete request for a document id that has no record and a delete request
  for a document id whose record belongs to another user fail with the same exception,
  whose text names only the requested id; neither modifies the state.
\<close>

theorem delete_failure_uniform:
  assumes "documents w1 document_id = None"
    and "documents w2 document_id = Some r" and "dr_user_id r \<noteq> user_id2"
  shows "fst (delete env1 customer1 document_id user_id1 w1) =
           fst (delete env2 customer2 document_id user_id2 w2) \<and>
         fst (delete env1 customer1 document_id user_id1 w1) =
           Inl (PyException
                  (''Document with id: '' @ document_id @
                   '' not found or user is not authorized to delete the document.'')) \<and>
         snd (delete env1 customer1 document_id user_id1 w1) = w1 \<and>
         snd (delete env2 customer2 document_id user_id2 w2) = w2"
  using assms by (simp add: delete_def get_record_def is_user_authorized_def)

theorem delete_failure_uniform_witness:
  "documents acme_world ''report'' = None \<and>
   documents acme_world_report ''report'' = Some report_record \<and>
   dr_user_id report_record \<noteq> ''u2'' \<and>
   fst (delete acme_env ''acme'' ''report'' ''u2'' acme_world) =
     fst (delete acme_env ''acme'' ''report'' ''u2'' acme_world_report) \<and>
   snd (delete acme_env ''acme'' ''report'' ''u2'' acme_world) = acme_world \<and>
   snd (delete acme_env ''acme'' ''report'' ''u2'' acme_world_report) = acme_world_report"
  using delete_failure_uniform
          [where ?w1.0 = acme_world and ?w2.0 = acme_world_report and document_id = "''report''"
             and r = report_record and ?user_id2.0 = "''u2''" and ?user_id1.0 = "''u2''"
             and ?env1.0 = acme_env and ?env2.0 = acme_env
             and ?customer1.0 = "''acme''" and ?customer2.0 = "''acme''"]
  by (simp add: acme_world_def acme_world_report_def report_record_def)

text \<open>
  Claim C3. During an authorized delete, when the deletion of the blob fails (the
  storage service raises, or there is no such blob), the failure is logged as an error or
  a warning and the deletion goes on: every unit of the document is removed from the
  tenant index, the \<open>DocumentRecord\<close> is deleted and the document id is removed from the
  registry record (its first occurrence); the delete returns normally when the registry
  lists the id. The tenant index is keyed by \<open>chunk_id\<close>, the field the delete actions
  are built on.
\<close>

theorem delete_survives_blob_failure:
  fixes env :: "'e env" and w :: "'e world"
  assumes "documents w document_id = Some r" and "dr_user_id r = user_id"
    and "dr_document_url r \<noteq> []"
    and "fst (delete_file env (dr_document_url r) w) = False"
    and "search_service w customer_id = Some ix" and "key_field ix = Some ''chunk_id''"
  shows "(\<exists>lvl msg entries.
            lvl \<noteq> INFO \<and>
            logs (snd (delete env customer_id document_id user_id w)) =
              logs w @ (lvl, msg) # entries) \<and>
         (\<exists>ix'. search_service (snd (delete env customer_id document_id user_id w)) customer_id
                  = Some ix' \<and>
                (\<forall>u \<in> set (si_units ix'). doc_document_id u \<noteq> document_id)) \<and>
         documents (snd (delete env customer_id document_id user_id w)) document_id = None \<and>
         indexes (snd (delete env customer_id document_id user_id w)) customer_id =
           map_option (\<lambda>ir. ir\<lparr>ir_document_ids := remove1 document_id (ir_document_ids ir)\<rparr>)
             (indexes w customer_id) \<and>
         (\<forall>ir. indexes w customer_id = Some ir \<and> document_id \<in> set (ir_document_ids ir) \<longrightarrow>
               fst (delete env customer_id document_id user_id w) = Inr ())"
proof -
  note st = delete_authorized_state [OF assms(1,2,5,6), of env]
  from delete_file_failure_logged [OF assms(4)] obtain lvl msg where
    l: "lvl \<noteq> INFO" "logs (snd (delete_file env (dr_document_url r) w)) = logs w @ [(lvl, msg)]"
    by blast
  from st(6) assms(3) l obtain entries where
    "logs (snd (delete env customer_id document_id user_id w)) = logs w @ (lvl, msg) # entries"
    by auto
  with l(1) have a: "\<exists>lvl msg entries.
            lvl \<noteq> INFO \<and>
            logs (snd (delete env customer_id document_id user_id w)) =
              logs w @ (lvl, msg) # entries" by blast
  have b: "\<exists>ix'. search_service (snd (delete env customer_id document_id user_id w)) customer_id
                  = Some ix' \<and>
                (\<forall>u \<in> set (si_units ix'). doc_document_id u \<noteq> document_id)"
    by (simp add: st(2) units_left_none)
  have c: "documents (snd (delete env customer_id document_id user_id w)) document_id = None"
    by (simp add: st(1))
  have e: "\<forall>ir. indexes w customer_id = Some ir \<and> document_id \<in> set (ir_document_ids ir) \<longrightarrow>
               fst (delete env customer_id document_id user_id w) = Inr ()"
    by (simp add: st(5))
  show ?thesis by (intro conjI a b c st(3) e)
qed

theorem delete_survives_blob_failure_witness:
  "documents acme_world_report ''report'' = Some report_record \<and>
   dr_user_id report_record = ''u1'' \<and> dr_document_url report_record \<noteq> [] \<and>
   fst (delete_file (acme_env\<lparr>delete_blob_fails := \<lambda>_. True\<rparr>)
          (dr_document_url report_record) acme_world_report) = False \<and>
   documents
     (snd (delete (acme_env\<lparr>delete_blob_fails := \<lambda>_. True\<rparr>) ''acme'' ''report'' ''u1''
             acme_world_report)) ''report'' = None \<and>
   indexes
     (snd (delete (acme_env\<lparr>delete_blob_fails := \<lambda>_. True\<rparr>) ''acme'' ''report'' ''u1''
             acme_world_report)) ''acme'' = Some (acme_index_record []) \<and>
   fst (delete (acme_env\<lparr>delete_blob_fails := \<lambda>_. True\<rparr>) ''acme'' ''report'' ''u1''
          acme_world_report) = Inr ()"
proof -
  let ?env = "acme_env\<lparr>delete_blob_fails := \<lambda>_. True\<rparr>"
  have f: "fst (delete_file ?env (dr_document_url report_record) acme_world_report) = False"
    by (simp add: delete_file_def)
  note t = delete_survives_blob_failure
             [OF acme_report_facts(1,2,5) f acme_report_facts(3) acme_report_key]
  have a: "documents (snd (delete ?env ''acme'' ''report'' ''u1'' acme_world_report))
             ''report'' = None"
    using t by blast
  have "indexes (snd (delete ?env ''acme'' ''report'' ''u1'' acme_world_report)) ''acme'' =
          map_option (\<lambda>ir. ir\<lparr>ir_document_ids := remove1 ''report'' (ir_document_ids ir)\<rparr>)
            (indexes acme_world_report ''acme'')"
    using t by blast
  then have b: "indexes (snd (delete ?env ''acme'' ''report'' ''u1'' acme_world_report))
                  ''acme'' = Some (acme_index_record [])"
    by (simp add: acme_report_facts(4) acme_index_record_def)
  have "\<forall>ir. indexes acme_world_report ''acme'' = Some ir \<and>
              ''report'' \<in> set (ir_document_ids ir) \<longrightarrow>
              fst (delete ?env ''acme'' ''report'' ''u1'' acme_world_report) = Inr ()"
    using t by blast
  then have c: "fst (delete ?env ''acme'' ''report'' ''u1'' acme_world_report) = Inr ()"
    by (simp add: acme_report_facts(4) acme_index_record_def)
  show ?thesis
    by (intro conjI acme_report_facts(1,2,5) f a b c)
qed

section \<open>Processing and uploading a document\<close>

lemma key_field_in_fields:
  assumes "key_field ix = Some k"
  shows "k \<in> set (map sf_name (si_fields ix))"
proof -
  from assms obtain f fs where f: "filter sf_key (si_fields ix) = f # fs" "sf_name f = k"
    by (auto simp: key_field_def split: list.splits)
  then have "f \<in> set (filter sf_key (si_fields ix))" by simp
  then have "f \<in> set (si_fields ix)" by simp
  with f show ?thesis by auto
qed

lemma convert_doc_keyed:
  "search_service w i = Some ix \<Longrightarrow> key_field ix = Some k \<Longrightarrow>
   convert_doc_to_search_record i d w = (Inr (Some d), w)"
  using key_field_in_fields [of ix k]
  by (simp add: convert_doc_to_search_record_def get_primary_key_def)

lemma convert_all_keyed:
  "search_service w i = Some ix \<Longrightarrow> key_field ix = Some k \<Longrightarrow>
   convert_all i ds w = (Inr (map Some ds), w)"
  by (induction ds) (simp_all add: convert_doc_keyed)

lemma map_filter_Some: "List.map_filter (\<lambda>d. d) (map Some ds) = ds"
  by (induction ds) (simp_all add: List.map_filter_simps)

lemma index_documents_keyed:
  assumes "search_service w i = Some ix" and "key_field ix = Some ''chunk_id''"
  shows "\<exists>results.
           index_documents i ds w =
             (Inr results,
              w\<lparr>search_service :=
                   (search_service w)(i \<mapsto>
                      ix\<lparr>si_units :=
                            foldl (\<lambda>us u. upsert (\<lambda>v. result_get v (Some ''chunk_id'')) u us)
                              (si_units ix) ds\<rparr>)\<rparr>)"
proof -
  have "list_all (\<lambda>u. result_get u (Some ''chunk_id'') \<noteq> None) ds"
    by (simp add: list_all_iff result_get_def)
  then show ?thesis
    using assms
    by (simp add: index_documents_def get_primary_key_def convert_all_keyed map_filter_Some
        upload_documents_def Let_def)
qed

lemma convert_to_documents_length:
  "length embeddings = length chunks \<Longrightarrow>
   length (convert_to_documents chunks did a u g s embeddings) = length chunks"
  by (simp add: convert_to_documents_def)

lemma convert_to_documents_nth:
  assumes "length embeddings = length chunks" and "i < length chunks"
  shows "convert_to_documents chunks did a u g s embeddings ! i =
           \<lparr>doc_account_id = a, doc_user_id = u, doc_document_id = did,
            doc_chunk_id = generate_chunk_id did i, doc_chunk_position = i,
            doc_session_id = s, doc_content = page_content (chunks ! i),
            doc_is_global = g, doc_metadata = lc_metadata (chunks ! i),
            doc_embedding = embeddings ! i\<rparr>"
  using assms by (simp add: convert_to_documents_def nth_enumerate_eq)

lemma convert_to_documents_chunk_ids:
  assumes "length embeddings = length chunks"
  shows "map doc_chunk_id (convert_to_documents chunks did a u g s embeddings) =
           map (generate_chunk_id did) [0..<length chunks]"
proof (rule nth_equalityI)
  show "length (map doc_chunk_id (convert_to_documents chunks did a u g s embeddings)) =
        length (map (generate_chunk_id did) [0..<length chunks])"
    using assms by (simp add: convert_to_documents_length)
next
  fix i
  assume "i < length (map doc_chunk_id (convert_to_documents chunks did a u g s embeddings))"
  then have i: "i < length chunks"
    using assms by (simp add: convert_to_documents_length)
  then show "map doc_chunk_id (convert_to_documents chunks did a u g s embeddings) ! i =
             map (generate_chunk_id did) [0..<length chunks] ! i"
    using assms by (simp add: convert_to_documents_length convert_to_documents_nth)
qed

lemma convert_to_documents_document_id:
  "x \<in> set (convert_to_documents chunks did a u g s embeddings) \<Longrightarrow> doc_document_id x = did"
  by (auto simp: convert_to_documents_def)

lemma make_document_record_fields:
  "make_document_record env did c i f a u s sc p units = Inr r \<Longrightarrow>
   dr_document_id r = did \<and> dr_chunk_ids r = map doc_chunk_id units"
  by (auto simp: make_document_record_def split: option.splits)

lemma update_docs_add_no_raise:
  "\<exists>b. fst (update_docs_in_index_record c d ''add'' w) = Inr b"
  by (auto simp: update_docs_in_index_record_def get_record_def update_or_create_record_def
      Let_def split: option.splits)

text \<open>An upload that returns normally has written the record of its units.\<close>

lemma upload_success_record:
  fixes env :: "'e env" and w :: "'e world"
  assumes ok: "fst (upload env customer index_name file a u s scope w) = Inr ()"
  shows "\<exists>units r.
           process_document env file a u (if scope = Some ''global'' then True else False)
             None s None = Inr units \<and>
           units \<noteq> [] \<and>
           documents (snd (upload env customer index_name file a u s scope w))
             (doc_document_id (hd units)) = Some r \<and>
           dr_chunk_ids r = map doc_chunk_id units"
proof -
  let ?g = "if scope = Some ''global'' then True else False"
  obtain p where p: "upload_destination_prefix customer a u s scope = Inr p"
    using ok by (cases "upload_destination_prefix customer a u s scope")
      (simp_all add: upload_def)
  obtain x1 w1 where f: "upload_file env file p w = (Inr x1, w1)"
    using ok p by (cases "upload_file env file p w" rule: prod.exhaust;
      cases "fst (upload_file env file p w)") (auto simp: upload_def bind_def)
  obtain units where pd: "process_document env file a u ?g None s None = Inr units"
    using ok p f by (cases "process_document env file a u ?g None s None")
      (simp_all add: upload_def bind_def)
  obtain first rest where un: "units = first # rest"
    using ok p f pd by (cases units) (simp_all add: upload_def bind_def)
  obtain x2 w2 where ix: "index_documents index_name units w1 = (Inr x2, w2)"
    using ok p f pd un
    by (cases "index_documents index_name units w1" rule: prod.exhaust;
      cases "fst (index_documents index_name units w1)") (auto simp: upload_def bind_def)
  obtain r where mk: "make_document_record env (doc_document_id first) customer index_name
      file a u s scope p units = Inr r"
    using ok p f pd un ix
    by (cases "make_document_record env (doc_document_id first) customer index_name
      file a u s scope p units") (simp_all add: upload_def bind_def)
  let ?w3 = "snd (update_document_record r w2)"
  have up: "snd (upload env customer index_name file a u s scope w) =
            snd (update_docs_in_index_record customer (doc_document_id first) ''add'' ?w3)"
    using p f pd un ix mk
    by (simp add: upload_def bind_def split: prod.splits sum.splits)
  have "documents ?w3 (doc_document_id first) = Some r"
    using make_document_record_fields [OF mk]
    by (simp add: update_document_record_def update_or_create_record_def log_msg_def)
  with up update_docs_frame [of customer "doc_document_id first" "''add''" ?w3]
  have "documents (snd (upload env customer index_name file a u s scope w))
          (doc_document_id first) = Some r" by simp
  with pd un make_document_record_fields [OF mk] show ?thesis by auto
qed

text \<open>
  An upload whose scope branch passes, whose file exists and yields at least one unit, on
  an index keyed by \<open>chunk_id\<close>: the blob is written and the units are indexed before the
  record is built, and the outcome is decided by the building of the record.
\<close>

lemma upload_indexed:
  fixes env :: "'e env" and w :: "'e world"
  assumes p: "upload_destination_prefix customer a u s scope = Inr p"
    and sz: "getsize env file = Some n"
    and pd: "process_document env file a u (if scope = Some ''global'' then True else False)
               None s None = Inr (first # rest)"
    and ix: "search_service w index_name = Some ix" and key: "key_field ix = Some ''chunk_id''"
  shows "\<exists>w2. blobs w2 = List.insert (rstrip_slash p @ ''/'' @ path_name env file) (blobs w) \<and>
              documents w2 = documents w \<and> indexes w2 = indexes w \<and>
              search_service w2 index_name =
                Some (ix\<lparr>si_units :=
                          foldl (\<lambda>us u. upsert (\<lambda>v. result_get v (Some ''chunk_id'')) u us)
                            (si_units ix) (first # rest)\<rparr>) \<and>
              upload env customer index_name file a u s scope w =
                (case make_document_record env (doc_document_id first) customer index_name
                        file a u s scope p (first # rest) of
                   Inl e \<Rightarrow> (Inl e, w2)
                 | Inr r \<Rightarrow>
                     (Inr (),
                      snd (update_docs_in_index_record customer (doc_document_id first) ''add''
                             (snd (update_document_record r w2)))))"
proof -
  define blob where "blob = rstrip_slash p @ ''/'' @ path_name env file"
  define w1 where
    "w1 = log_msg INFO (''Uploaded '' @ file @ '' to '' @ blob) (w\<lparr>blobs := List.insert blob (blobs w)\<rparr>)"
  have f: "upload_file env file p w = (Inr blob, w1)"
    using sz by (simp add: upload_file_def blob_def w1_def Let_def)
  have w1: "search_service w1 = search_service w" "blobs w1 = List.insert blob (blobs w)"
    "documents w1 = documents w" "indexes w1 = indexes w"
    by (simp_all add: w1_def log_msg_def)
  define w2 where
    "w2 = w1\<lparr>search_service :=
                (search_service w1)(index_name \<mapsto>
                   ix\<lparr>si_units :=
                         foldl (\<lambda>us u. upsert (\<lambda>v. result_get v (Some ''chunk_id'')) u us)
                           (si_units ix) (first # rest)\<rparr>)\<rparr>"
  from index_documents_keyed [of w1 index_name ix "first # rest"] ix key w1(1)
  obtain results where i: "index_documents index_name (first # rest) w1 = (Inr results, w2)"
    unfolding w2_def by auto
  have frame: "blobs w2 = List.insert blob (blobs w)" "documents w2 = documents w"
    "indexes w2 = indexes w"
    "search_service w2 index_name =
       Some (ix\<lparr>si_units :=
                 foldl (\<lambda>us u. upsert (\<lambda>v. result_get v (Some ''chunk_id'')) u us)
                   (si_units ix) (first # rest)\<rparr>)"
    by (simp_all add: w2_def w1)
  have "upload env customer index_name file a u s scope w =
          (case make_document_record env (doc_document_id first) customer index_name
                  file a u s scope p (first # rest) of
             Inl e \<Rightarrow> (Inl e, w2)
           | Inr r \<Rightarrow>
               (Inr (),
                snd (update_docs_in_index_record customer (doc_document_id first) ''add''
                       (snd (update_document_record r w2)))))"
  proof (cases "make_document_record env (doc_document_id first) customer index_name
                  file a u s scope p (first # rest)")
    case (Inl e)
    then show ?thesis
      using p f pd i by (simp add: upload_def bind_def)
  next
    case (Inr r)
    obtain b where "fst (update_docs_in_index_record customer (doc_document_id first) ''add''
                           (snd (update_document_record r w2))) = Inr b"
      using update_docs_add_no_raise by blast
    then obtain w4 where
      u: "update_docs_in_index_record customer (doc_document_id first) ''add''
            (snd (update_document_record r w2)) = (Inr b, w4)"
      by (metis prod.collapse)
    obtain t w3 where d: "update_document_record r w2 = (t, w3)"
      by (metis prod.collapse)
    show ?thesis
      using p f pd i Inr u d
      by (simp add: upload_def bind_def)
  qed
  with frame show ?thesis unfolding blob_def by blast
qed

lemma str_nat_digit: "n < 10 \<Longrightarrow> str_nat n = [digit_char n]"
  by (simp add: str_nat.simps)

lemma acme_key: "key_field acme_index = Some ''chunk_id''"
  by (simp add: key_field_def acme_index_def)

lemma acme_load_and_chunk:
  "load_and_chunk acme_env ''report.pdf'' None =
     Inr [\<lparr>page_content = ''alpha'',
           lc_metadata = [(''file_type'', MStr ''pdf''), (''file_size'', MInt 2048)]\<rparr>,
          \<lparr>page_content = ''beta'',
           lc_metadata = [(''file_type'', MStr ''pdf''), (''file_size'', MInt 2048)]\<rparr>]"
  by (simp add: load_and_chunk_def from_path_def acme_env_def py_lower_def strip_dots_def
      FileType_of_value_def FileType_value_def chunk_document_def get_splitter_def
      dict_update_def)

lemma acme_process_document:
  "process_document acme_env ''report.pdf'' a u g None s None =
     Inr [\<lparr>doc_account_id = a, doc_user_id = u, doc_document_id = ''report'',
           doc_chunk_id = ''report_chunk_0'', doc_chunk_position = 0, doc_session_id = s,
           doc_content = ''alpha'', doc_is_global = g,
           doc_metadata = [(''file_type'', MStr ''pdf''), (''file_size'', MInt 2048)],
           doc_embedding = 5\<rparr>,
          \<lparr>doc_account_id = a, doc_user_id = u, doc_document_id = ''report'',
           doc_chunk_id = ''report_chunk_1'', doc_chunk_position = 1, doc_session_id = s,
           doc_content = ''beta'', doc_is_global = g,
           doc_metadata = [(''file_type'', MStr ''pdf''), (''file_size'', MInt 2048)],
           doc_embedding = 4\<rparr>]"
  apply (simp add: process_document_def acme_load_and_chunk truthy_def Let_def)
  apply (simp add: acme_env_def convert_to_documents_def enumerate_eq_zip upt_rec
      generate_chunk_id_def str_nat_digit digit_char_def)
  done

text \<open>
  \<open>str_nat\<close> gives the decimal numeral of its argument: digits only, with the value of the
  argument, and no leading zero.
\<close>

lemma digit_char_index:
  "\<forall>d \<in> set [0..<10].
     length (takeWhile (\<lambda>c. c \<noteq> digit_char d) ''0123456789'') = d \<and>
     digit_char d \<in> set ''0123456789'' \<and>
     (digit_char d = CHR ''0'' \<longrightarrow> d = 0)"
  by (simp add: upt_rec digit_char_def)

lemma digit_char_facts:
  assumes "d < 10"
  shows "length (takeWhile (\<lambda>c. c \<noteq> digit_char d) ''0123456789'') = d"
    and "digit_char d \<in> set ''0123456789''"
    and "digit_char d = CHR ''0'' \<Longrightarrow> d = 0"
  using assms digit_char_index by auto

lemma str_nat_nonempty: "str_nat n \<noteq> []"
  by (subst str_nat.simps) simp

lemma str_nat_digits: "set (str_nat n) \<subseteq> set ''0123456789''"
proof (induction n rule: str_nat.induct)
  case (1 n)
  show ?case
  proof (cases "n < 10")
    case True
    then show ?thesis
      using digit_char_facts(2) [of n] by (subst str_nat.simps) simp
  next
    case False
    then have "set (str_nat (n div 10)) \<subseteq> set ''0123456789''"
      using "1.IH" by simp
    moreover have "digit_char (n mod 10) \<in> set ''0123456789''"
      by (rule digit_char_facts(2)) simp
    ultimately show ?thesis
      using False by (subst str_nat.simps) simp
  qed
qed

lemma str_nat_value:
  "foldl (\<lambda>acc c. 10 * acc + length (takeWhile (\<lambda>d. d \<noteq> c) ''0123456789'')) 0 (str_nat n) = n"
proof (induction n rule: str_nat.induct)
  case (1 n)
  show ?case
  proof (cases "n < 10")
    case True
    then show ?thesis
      using digit_char_facts(1) [of n] by (subst str_nat.simps) simp
  next
    case False
    then have ih: "foldl (\<lambda>acc c. 10 * acc + length (takeWhile (\<lambda>d. d \<noteq> c) ''0123456789'')) 0
                     (str_nat (n div 10)) = n div 10"
      using "1.IH" by simp
    have d: "length (takeWhile (\<lambda>c. c \<noteq> digit_char (n mod 10)) ''0123456789'') = n mod 10"
      by (rule digit_char_facts(1)) simp
    have "str_nat n = str_nat (n div 10) @ [digit_char (n mod 10)]"
      using False by (subst str_nat.simps) simp
    then show ?thesis
      by (simp only: foldl_append foldl_Cons foldl_Nil ih d) simp
  qed
qed

lemma str_nat_leading:
  "hd (str_nat n) = CHR ''0'' \<Longrightarrow> n = 0"
proof (induction n rule: str_nat.induct)
  case (1 n)
  show ?case
  proof (cases "n < 10")
    case True
    then have "str_nat n = [digit_char n]" by (subst str_nat.simps) simp
    with "1.prems" True show ?thesis
      using digit_char_facts(3) [of n] by simp
  next
    case False
    then have "str_nat n = str_nat (n div 10) @ [digit_char (n mod 10)]"
      by (subst str_nat.simps) simp
    with "1.prems" have "hd (str_nat (n div 10)) = CHR ''0''"
      by (simp add: str_nat_nonempty)
    with "1.IH" False have "n div 10 = 0" by simp
    with False show ?thesis by simp
  qed
qed

lemma str_nat_decimal:
  "set (str_nat n) \<subseteq> set ''0123456789'' \<and>
   foldl (\<lambda>acc c. 10 * acc + length (takeWhile (\<lambda>d. d \<noteq> c) ''0123456789'')) 0 (str_nat n) = n \<and>
   (hd (str_nat n) = CHR ''0'' \<longrightarrow> str_nat n = ''0'')"
proof -
  have "hd (str_nat n) = CHR ''0'' \<longrightarrow> str_nat n = ''0''"
  proof
    assume "hd (str_nat n) = CHR ''0''"
    then have "n = 0" by (rule str_nat_leading)
    then show "str_nat n = ''0''" by (simp add: str_nat.simps digit_char_def)
  qed
  then show ?thesis
    using str_nat_digits str_nat_value by blast
qed

text \<open>An HTML file gets no splitter: processing it raises before anything is chunked.\<close>

lemma html_file_is_not_chunked:
  "from_path env file = Inr HTML \<Longrightarrow>
   process_document env file account_id user_id is_global document_id session_id metadata =
     Inl (TypeError ''HTMLSemanticPreservingSplitter: unexpected keyword argument chunk_size'')"
  by (simp add: process_document_def load_and_chunk_def chunk_document_def get_splitter_def
      Let_def)

text \<open>
  Claim C7. The splitter chosen for the file's type (the markdown splitter for \<open>md\<close>, the
  recursive splitter with the separators \<open>["\n\n", "\n", " ", ""]\<close> for \<open>pdf\<close>, \<open>docx\<close>
  and \<open>txt\<close>, with \<open>["\n", " ", ""]\<close> for \<open>pptx\<close>) is run on the loaded segments, which
  carry the file metadata; \<open>chunks\<close> is what it emits. When the embedder returns one vector
  per chunk, processing yields exactly as many units as chunks; unit \<open>i\<close> has the text of
  chunk \<open>i\<close>, the position \<open>i\<close> and the chunk id \<open>{document_id}_chunk_{i}\<close>, where \<open>{i}\<close> is
  the decimal numeral of \<open>i\<close>. The \<open>DocumentRecord\<close> that an upload writes (stored under
  the file's stem, the document id of an upload) carries exactly these chunk ids, in this
  order.
\<close>

theorem chunk_ids_in_emission_order:
  fixes env :: "'e env" and w :: "'e world" and document_id :: "string option"
  assumes ft: "from_path env file = Inr file_type"
    and ty: "file_type \<in> {MD, PDF, DOCX, TXT, PPTX}"
    and ch: "chunks =
               split_documents env
                 (if file_type = MD then MarkdownTextSplitter 50 10
                  else if file_type = PPTX
                  then RecursiveCharacterTextSplitter 50 10 [[CHR 0x0A], '' '', []]
                  else RecursiveCharacterTextSplitter 50 10
                         [[CHR 0x0A, CHR 0x0A], [CHR 0x0A], '' '', []])
                 (map (\<lambda>doc. doc\<lparr>lc_metadata :=
                                dict_update (lc_metadata doc)
                                  [(''file_type'', MStr (FileType_value file_type)),
                                   (''file_size'',
                                    case getsize env file of
                                      Some n \<Rightarrow> MInt n | None \<Rightarrow> MNone)]\<rparr>)
                    (loader_load env file))"
    and em: "length (embed_texts env (map page_content chunks)) = length chunks"
  defines "doc_id \<equiv> (if truthy document_id then fmt document_id else path_stem env file)"
  shows "(\<exists>units.
            process_document env file account_id user_id is_global document_id session_id None
              = Inr units \<and>
            length units = length chunks \<and>
            (\<forall>i < length chunks.
               doc_chunk_id (units ! i) = doc_id @ ''_chunk_'' @ str_nat i \<and>
               set (str_nat i) \<subseteq> set ''0123456789'' \<and>
               foldl (\<lambda>acc c. 10 * acc + length (takeWhile (\<lambda>d. d \<noteq> c) ''0123456789'')) 0
                 (str_nat i) = i \<and>
               (hd (str_nat i) = CHR ''0'' \<longrightarrow> str_nat i = ''0'') \<and>
               doc_chunk_position (units ! i) = i \<and>
               doc_content (units ! i) = page_content (chunks ! i) \<and>
               doc_document_id (units ! i) = doc_id)) \<and>
         (fst (upload env customer index_name file account_id user_id session_id scope w) = Inr ()
            \<longrightarrow>
          (\<exists>r. documents
                  (snd (upload env customer index_name file account_id user_id session_id scope w))
                  (path_stem env file) = Some r \<and>
               dr_chunk_ids r =
                 map (\<lambda>i. path_stem env file @ ''_chunk_'' @ str_nat i) [0..<length chunks]))"
proof (intro conjI impI)
  have sp: "get_splitter file_type 50 10 =
              Inr (if file_type = MD then MarkdownTextSplitter 50 10
                   else if file_type = PPTX
                   then RecursiveCharacterTextSplitter 50 10 [[CHR 0x0A], '' '', []]
                   else RecursiveCharacterTextSplitter 50 10
                          [[CHR 0x0A, CHR 0x0A], [CHR 0x0A], '' '', []])"
    using ty by (auto simp: get_splitter_def)
  have lc: "load_and_chunk env file None = Inr chunks"
    by (simp add: load_and_chunk_def ft chunk_document_def sp ch)
  have pd: "\<And>a u g d s. process_document env file a u g d s None =
          Inr (convert_to_documents chunks
                 (if truthy d then fmt d else path_stem env file) a u g s
                 (embed_texts env (map page_content chunks)))"
    by (simp add: process_document_def lc)
  show "\<exists>units.
            process_document env file account_id user_id is_global document_id session_id None
              = Inr units \<and>
            length units = length chunks \<and>
            (\<forall>i < length chunks.
               doc_chunk_id (units ! i) = doc_id @ ''_chunk_'' @ str_nat i \<and>
               set (str_nat i) \<subseteq> set ''0123456789'' \<and>
               foldl (\<lambda>acc c. 10 * acc + length (takeWhile (\<lambda>d. d \<noteq> c) ''0123456789'')) 0
                 (str_nat i) = i \<and>
               (hd (str_nat i) = CHR ''0'' \<longrightarrow> str_nat i = ''0'') \<and>
               doc_chunk_position (units ! i) = i \<and>
               doc_content (units ! i) = page_content (chunks ! i) \<and>
               doc_document_id (units ! i) = doc_id)"
    using em str_nat_decimal
    by (simp add: pd doc_id_def convert_to_documents_length convert_to_documents_nth
        generate_chunk_id_def)
  assume ok: "fst (upload env customer index_name file account_id user_id session_id scope w)
                = Inr ()"
  let ?units = "convert_to_documents chunks (path_stem env file) account_id user_id
                  (if scope = Some ''global'' then True else False) session_id
                  (embed_texts env (map page_content chunks))"
  have pd': "process_document env file account_id user_id
              (if scope = Some ''global'' then True else False) None session_id None
            = Inr ?units"
    by (simp add: pd truthy_def)
  from upload_success_record [OF ok] pd' obtain r where
    ne: "?units \<noteq> []"
    and r: "documents
              (snd (upload env customer index_name file account_id user_id session_id scope w))
              (doc_document_id (hd ?units)) = Some r"
           "dr_chunk_ids r = map doc_chunk_id ?units"
    by auto
  from ne have "hd ?units \<in> set ?units" by simp
  then have "doc_document_id (hd ?units) = path_stem env file"
    by (rule convert_to_documents_document_id)
  moreover have "map doc_chunk_id ?units =
      map (\<lambda>i. path_stem env file @ ''_chunk_'' @ str_nat i) [0..<length chunks]"
    using convert_to_documents_chunk_ids [OF em]
    by (simp add: generate_chunk_id_def [abs_def])
  ultimately show "\<exists>r. documents
                  (snd (upload env customer index_name file account_id user_id session_id scope w))
                  (path_stem env file) = Some r \<and>
               dr_chunk_ids r =
                 map (\<lambda>i. path_stem env file @ ''_chunk_'' @ str_nat i) [0..<length chunks]"
    using r by auto
qed

lemma acme_from_path: "from_path acme_env ''report.pdf'' = Inr PDF"
  by (simp add: from_path_def acme_env_def py_lower_def strip_dots_def FileType_of_value_def
      FileType_value_def)

lemma acme_split:
  "[\<lparr>page_content = ''alpha'',
     lc_metadata = [(''file_type'', MStr ''pdf''), (''file_size'', MInt 2048)]\<rparr>,
    \<lparr>page_content = ''beta'',
     lc_metadata = [(''file_type'', MStr ''pdf''), (''file_size'', MInt 2048)]\<rparr>] =
   split_documents acme_env
     (if PDF = MD then MarkdownTextSplitter 50 10
      else if PDF = PPTX
      then RecursiveCharacterTextSplitter 50 10 [[CHR 0x0A], '' '', []]
      else RecursiveCharacterTextSplitter 50 10
             [[CHR 0x0A, CHR 0x0A], [CHR 0x0A], '' '', []])
     (map (\<lambda>doc. doc\<lparr>lc_metadata :=
                    dict_update (lc_metadata doc)
                      [(''file_type'', MStr (FileType_value PDF)),
                       (''file_size'',
                        case getsize acme_env ''report.pdf'' of
                          Some n \<Rightarrow> MInt n | None \<Rightarrow> MNone)]\<rparr>)
        (loader_load acme_env ''report.pdf''))"
  by (simp add: acme_env_def dict_update_def FileType_value_def)

theorem chunk_ids_in_emission_order_witness:
  "from_path acme_env ''report.pdf'' = Inr PDF \<and>
   PDF \<in> {MD, PDF, DOCX, TXT, PPTX} \<and>
   length (embed_texts acme_env [''alpha'', ''beta'']) = 2 \<and>
   fst (upload acme_env ''acme'' ''acme'' ''report.pdf'' (Some ''a1'') (Some ''u1'') (Some ''s1'')
          (Some ''user'') acme_world) = Inr () \<and>
   (\<exists>r. documents
          (snd (upload acme_env ''acme'' ''acme'' ''report.pdf'' (Some ''a1'') (Some ''u1'')
                  (Some ''s1'') (Some ''user'') acme_world)) ''report'' = Some r \<and>
        dr_chunk_ids r = [''report_chunk_0'', ''report_chunk_1''])"
proof -
  let ?chunks = "[\<lparr>page_content = ''alpha'',
                   lc_metadata = [(''file_type'', MStr ''pdf''), (''file_size'', MInt 2048)]\<rparr>,
                  \<lparr>page_content = ''beta'',
                   lc_metadata = [(''file_type'', MStr ''pdf''), (''file_size'', MInt 2048)]\<rparr>]"
  have ty: "PDF \<in> {MD, PDF, DOCX, TXT, PPTX}" by simp
  have em: "length (embed_texts acme_env [''alpha'', ''beta'']) = 2"
    by (simp add: acme_env_def)
  then have em': "length (embed_texts acme_env (map page_content ?chunks)) = length ?chunks"
    by simp
  have p: "upload_destination_prefix ''acme'' (Some ''a1'') (Some ''u1'') (Some ''s1'')
             (Some ''user'') = Inr ''acme/a1/u1''"
    by (simp add: upload_destination_prefix_def truthy_def fmt_def)
  have sz: "getsize acme_env ''report.pdf'' = Some 2048"
    by (simp add: acme_env_def)
  have ix: "search_service acme_world ''acme'' = Some acme_index"
    by (simp add: acme_world_def)
  let ?units = "projr (process_document acme_env ''report.pdf'' (Some ''a1'') (Some ''u1'')
                         False None (Some ''s1'') None)"
  have pd: "process_document acme_env ''report.pdf'' (Some ''a1'') (Some ''u1'')
              (if Some ''user'' = Some ''global'' then True else False) None (Some ''s1'') None
            = Inr (hd ?units # tl ?units)"
    by (simp add: acme_process_document)
  have mk: "\<exists>r. make_document_record acme_env (doc_document_id (hd ?units))
              ''acme'' ''acme'' ''report.pdf'' (Some ''a1'') (Some ''u1'') (Some ''s1'')
              (Some ''user'') ''acme/a1/u1'' (hd ?units # tl ?units) = Inr r"
    by (simp add: make_document_record_def sz)
  from upload_indexed [OF p sz pd ix acme_key] mk
  have ok: "fst (upload acme_env ''acme'' ''acme'' ''report.pdf'' (Some ''a1'') (Some ''u1'')
                   (Some ''s1'') (Some ''user'') acme_world) = Inr ()"
    by auto
  note t = chunk_ids_in_emission_order
             [OF acme_from_path ty acme_split em', where w = acme_world
                and customer = "''acme''"
                and index_name = "''acme''" and account_id = "Some ''a1''"
                and user_id = "Some ''u1''" and session_id = "Some ''s1''"
                and scope = "Some ''user''" and document_id = None and is_global = False]
  from t [THEN conjunct2] ok
  have "\<exists>r. documents
          (snd (upload acme_env ''acme'' ''acme'' ''report.pdf'' (Some ''a1'') (Some ''u1'')
                  (Some ''s1'') (Some ''user'') acme_world)) (path_stem acme_env ''report.pdf'')
           = Some r \<and>
        dr_chunk_ids r =
          map (\<lambda>i. path_stem acme_env ''report.pdf'' @ ''_chunk_'' @ str_nat i)
            [0..<length ?chunks]"
    by (rule mp)
  then have r: "\<exists>r. documents
          (snd (upload acme_env ''acme'' ''acme'' ''report.pdf'' (Some ''a1'') (Some ''u1'')
                  (Some ''s1'') (Some ''user'') acme_world)) ''report'' = Some r \<and>
        dr_chunk_ids r = [''report_chunk_0'', ''report_chunk_1'']"
    by (simp add: acme_env_def upt_rec str_nat_digit digit_char_def)
  show ?thesis
    by (intro conjI acme_from_path ty em ok r)
qed

text \<open>
  Claim C2, at an input where the code departs from it. An upload with scope \<open>session\<close>
  and no session id passes the scope branch, which has no assertion for this scope: the
  blob is written under a prefix that ends in the text \<open>None\<close> and the units are indexed.
  The failure comes only afterwards, from the validation of the \<open>DocumentRecord\<close>, and no
  record is written. In the same way the scope \<open>user\<close> asks for no account id, on upload
  and on search, and the scope \<open>session\<close> on search asks for the session id alone.
\<close>

theorem upload_session_scope_without_session_id:
  "fst (upload acme_env ''acme'' ''acme'' ''report.pdf'' (Some ''a1'') (Some ''u1'') None
          (Some ''session'') acme_world) =
     Inl (ValidationError ''Input should be a valid string'') \<and>
   blobs (snd (upload acme_env ''acme'' ''acme'' ''report.pdf'' (Some ''a1'') (Some ''u1'') None
                 (Some ''session'') acme_world)) = [''acme/a1/u1/None/report.pdf''] \<and>
   (\<exists>ix. search_service
           (snd (upload acme_env ''acme'' ''acme'' ''report.pdf'' (Some ''a1'') (Some ''u1'')
                   None (Some ''session'') acme_world)) ''acme'' = Some ix \<and>
         map doc_chunk_id (si_units ix) = [''report_chunk_0'', ''report_chunk_1''] \<and>
         map doc_session_id (si_units ix) = [None, None]) \<and>
   documents (snd (upload acme_env ''acme'' ''acme'' ''report.pdf'' (Some ''a1'') (Some ''u1'')
                     None (Some ''session'') acme_world)) = Map.empty \<and>
   upload_destination_prefix ''acme'' None (Some ''u1'') None (Some ''user'') =
     Inr ''acme/None/u1'' \<and>
   build_filter_expression None (Some ''u1'') None (Some ''user'') [] =
     Inr (Some (''user_id eq '' @ quote ''u1'')) \<and>
   build_filter_expression None None (Some ''s1'') (Some ''session'') [] =
     Inr (Some (''session_id eq '' @ quote ''s1''))"
proof -
  let ?up = "upload acme_env ''acme'' ''acme'' ''report.pdf'' (Some ''a1'') (Some ''u1'') None
               (Some ''session'') acme_world"
  have p: "upload_destination_prefix ''acme'' (Some ''a1'') (Some ''u1'') None
             (Some ''session'') = Inr ''acme/a1/u1/None''"
    by (simp add: upload_destination_prefix_def fmt_def)
  have sz: "getsize acme_env ''report.pdf'' = Some 2048"
    by (simp add: acme_env_def)
  have ix: "search_service acme_world ''acme'' = Some acme_index"
    by (simp add: acme_world_def)
  let ?units = "projr (process_document acme_env ''report.pdf'' (Some ''a1'') (Some ''u1'')
                         False None None None)"
  have pd: "process_document acme_env ''report.pdf'' (Some ''a1'') (Some ''u1'')
              (if Some ''session'' = Some ''global'' then True else False) None None None
            = Inr (hd ?units # tl ?units)"
    by (simp add: acme_process_document)
  have mk: "make_document_record acme_env (doc_document_id (hd ?units)) ''acme'' ''acme''
              ''report.pdf'' (Some ''a1'') (Some ''u1'') None (Some ''session'')
              ''acme/a1/u1/None'' (hd ?units # tl ?units) =
            Inl (ValidationError ''Input should be a valid string'')"
    by (simp add: make_document_record_def sz)
  from upload_indexed [OF p sz pd ix acme_key] obtain w2 where
    w2: "blobs w2 = List.insert (rstrip_slash ''acme/a1/u1/None'' @ ''/'' @
                                  path_name acme_env ''report.pdf'') (blobs acme_world)"
        "documents w2 = documents acme_world"
        "search_service w2 ''acme'' =
           Some (acme_index\<lparr>si_units :=
                   foldl (\<lambda>us u. upsert (\<lambda>v. result_get v (Some ''chunk_id'')) u us)
                     (si_units acme_index) (hd ?units # tl ?units)\<rparr>)"
    and u: "?up = (case make_document_record acme_env (doc_document_id (hd ?units)) ''acme''
                          ''acme'' ''report.pdf'' (Some ''a1'') (Some ''u1'') None
                          (Some ''session'') ''acme/a1/u1/None'' (hd ?units # tl ?units) of
                     Inl e \<Rightarrow> (Inl e, w2)
                   | Inr r \<Rightarrow>
                       (Inr (),
                        snd (update_docs_in_index_record ''acme'' (doc_document_id (hd ?units))
                               ''add'' (snd (update_document_record r w2)))))"
    by blast
  from u mk have up: "?up = (Inl (ValidationError ''Input should be a valid string''), w2)"
    by simp
  have a: "fst ?up = Inl (ValidationError ''Input should be a valid string'')"
    by (simp add: up)
  have "blobs w2 = [''acme/a1/u1/None/report.pdf'']"
    by (simp add: w2(1) rstrip_slash_def acme_env_def acme_world_def)
  then have b: "blobs (snd ?up) = [''acme/a1/u1/None/report.pdf'']"
    by (simp add: up)
  have "\<exists>ix. search_service w2 ''acme'' = Some ix \<and>
         map doc_chunk_id (si_units ix) = [''report_chunk_0'', ''report_chunk_1''] \<and>
         map doc_session_id (si_units ix) = [None, None]"
    by (simp add: w2(3) acme_process_document acme_index_def result_get_def)
  then have c: "\<exists>ix. search_service (snd ?up) ''acme'' = Some ix \<and>
         map doc_chunk_id (si_units ix) = [''report_chunk_0'', ''report_chunk_1''] \<and>
         map doc_session_id (si_units ix) = [None, None]"
    by (simp add: up)
  have "documents w2 = Map.empty"
    by (simp add: w2(2) acme_world_def)
  then have d: "documents (snd ?up) = Map.empty"
    by (simp add: up)
  have e: "upload_destination_prefix ''acme'' None (Some ''u1'') None (Some ''user'') =
             Inr ''acme/None/u1''"
    by (simp add: upload_destination_prefix_def fmt_def truthy_def)
  have f: "build_filter_expression None (Some ''u1'') None (Some ''user'') [] =
             Inr (Some (''user_id eq '' @ quote ''u1''))"
    by (simp add: build_filter_expression_def truthy_def fmt_def quote_def)
  have g: "build_filter_expression None None (Some ''s1'') (Some ''session'') [] =
             Inr (Some (''session_id eq '' @ quote ''s1''))"
    by (simp add: build_filter_expression_def truthy_def fmt_def quote_def)
  show ?thesis
    by (intro conjI a b c d e f g)
qed

text \<open>
  Claim C1, at an input where the code departs from it. For the scopes \<open>account\<close>, \<open>user\<close>
  and \<open>session\<close> the filter is the scope's own condition alone: the branch that would add
  \<open>or is_global eq true\<close> hangs on the final \<open>else\<close> of the scope chain and is reached with
  an empty condition list only. For the scope \<open>global\<close> the filter is \<open>is_global eq true\<close>.
\<close>

theorem scoped_filter_omits_global:
  "build_filter_expression (Some ''a1'') (Some ''u1'') None (Some ''user'') [] =
     Inr (Some (''user_id eq '' @ quote ''u1'')) \<and>
   build_filter_expression (Some ''a1'') (Some ''u1'') None (Some ''user'') [] \<noteq>
     Inr (Some (''(user_id eq '' @ quote ''u1'' @ '') or is_global eq true'')) \<and>
   build_filter_expression (Some ''a1'') None None (Some ''account'') [] =
     Inr (Some (''account_id eq '' @ quote ''a1'')) \<and>
   build_filter_expression (Some ''a1'') (Some ''u1'') (Some ''s1'') (Some ''session'') [] =
     Inr (Some (''session_id eq '' @ quote ''s1'')) \<and>
   build_filter_expression (Some ''a1'') (Some ''u1'') (Some ''s1'') (Some ''global'') [] =
     Inr (Some ''is_global eq true'')"
  by (simp add: build_filter_expression_def truthy_def fmt_def quote_def)

section \<open>Deleting what was uploaded\<close>

lemma count_list_remove1:
  "count_list xs x \<le> 1 \<Longrightarrow> x \<notin> set (remove1 x xs)"
proof (induction xs)
  case Nil
  show ?case by simp
next
  case (Cons y ys)
  show ?case
  proof (cases "x = y")
    case True
    with Cons.prems have "count_list ys x = 0" by simp
    then have "x \<notin> set ys" by (simp add: count_list_0_iff)
    with True show ?thesis by simp
  next
    case False
    with Cons show ?thesis by simp
  qed
qed

text \<open>
  An upload whose record can be built, on an index keyed by \<open>chunk_id\<close> and a tenant with
  a registry record: it returns normally, stores the record under the document id,
  appends the document id to the registry list and leaves the index with new units.
\<close>

lemma upload_succeeds:
  fixes env :: "'e env" and w :: "'e world"
  assumes p: "upload_destination_prefix customer a u s scope = Inr p"
    and sz: "getsize env file = Some n"
    and pd: "process_document env file a u (if scope = Some ''global'' then True else False)
               None s None = Inr (first # rest)"
    and ix: "search_service w index_name = Some ix" and key: "key_field ix = Some ''chunk_id''"
    and mk: "make_document_record env (doc_document_id first) customer index_name
               file a u s scope p (first # rest) = Inr r"
    and reg: "indexes w customer = Some ir"
  shows "fst (upload env customer index_name file a u s scope w) = Inr ()"
    and "documents (snd (upload env customer index_name file a u s scope w)) =
           (documents w)(doc_document_id first \<mapsto> r)"
    and "indexes (snd (upload env customer index_name file a u s scope w)) =
           (indexes w)(customer \<mapsto>
              ir\<lparr>ir_document_ids := ir_document_ids ir @ [doc_document_id first]\<rparr>)"
    and "\<exists>units. search_service (snd (upload env customer index_name file a u s scope w))
                    index_name = Some (ix\<lparr>si_units := units\<rparr>)"
proof -
  from upload_indexed [OF p sz pd ix key] mk obtain w2 where
    w2: "documents w2 = documents w" "indexes w2 = indexes w"
        "search_service w2 index_name =
           Some (ix\<lparr>si_units :=
                     foldl (\<lambda>us u. upsert (\<lambda>v. result_get v (Some ''chunk_id'')) u us)
                       (si_units ix) (first # rest)\<rparr>)"
    and up: "upload env customer index_name file a u s scope w =
               (Inr (),
                snd (update_docs_in_index_record customer (doc_document_id first) ''add''
                       (snd (update_document_record r w2))))"
    by auto
  let ?w3 = "snd (update_document_record r w2)"
  have id: "dr_document_id r = doc_document_id first"
    using make_document_record_fields [OF mk] by simp
  have w3: "documents ?w3 = (documents w)(doc_document_id first \<mapsto> r)"
    "indexes ?w3 = indexes w" "search_service ?w3 = search_service w2"
    by (simp_all add: update_document_record_def update_or_create_record_def log_msg_def w2 id)
  note fr = update_docs_frame [of customer "doc_document_id first" "''add''" ?w3]
  note ad = update_docs_add_effect [of ?w3 customer ir "doc_document_id first"]
  show "fst (upload env customer index_name file a u s scope w) = Inr ()"
    by (simp add: up)
  show "documents (snd (upload env customer index_name file a u s scope w)) =
           (documents w)(doc_document_id first \<mapsto> r)"
    using fr by (simp add: up w3)
  show "indexes (snd (upload env customer index_name file a u s scope w)) =
           (indexes w)(customer \<mapsto>
              ir\<lparr>ir_document_ids := ir_document_ids ir @ [doc_document_id first]\<rparr>)"
    using ad reg by (simp add: up w3)
  show "\<exists>units. search_service (snd (upload env customer index_name file a u s scope w))
                    index_name = Some (ix\<lparr>si_units := units\<rparr>)"
    using fr by (simp add: up w3 w2, blast)
qed

lemma acme_index_key: "key_field (acme_index\<lparr>si_units := units\<rparr>) = Some ''chunk_id''"
  by (simp add: key_field_def acme_index_def)

text \<open>The upload of \<open>report.pdf\<close> by user \<open>u1\<close> of tenant \<open>acme\<close>, from any state of the tenant.\<close>

lemma acme_upload_step:
  fixes w :: "nat world"
  assumes ix: "search_service w ''acme'' = Some (acme_index\<lparr>si_units := units\<rparr>)"
    and reg: "indexes w ''acme'' = Some (acme_index_record ids)"
  shows "fst (upload acme_env ''acme'' ''acme'' ''report.pdf'' (Some ''a1'') (Some ''u1'')
                (Some ''s1'') (Some ''user'') w) = Inr ()"
    and "documents (snd (upload acme_env ''acme'' ''acme'' ''report.pdf'' (Some ''a1'')
                           (Some ''u1'') (Some ''s1'') (Some ''user'') w)) ''report'' =
           Some report_record"
    and "indexes (snd (upload acme_env ''acme'' ''acme'' ''report.pdf'' (Some ''a1'')
                         (Some ''u1'') (Some ''s1'') (Some ''user'') w)) ''acme'' =
           Some (acme_index_record (ids @ [''report'']))"
    and "\<exists>units'. search_service (snd (upload acme_env ''acme'' ''acme'' ''report.pdf''
                                         (Some ''a1'') (Some ''u1'') (Some ''s1'')
                                         (Some ''user'') w)) ''acme'' =
                    Some (acme_index\<lparr>si_units := units'\<rparr>)"
proof -
  have p: "upload_destination_prefix ''acme'' (Some ''a1'') (Some ''u1'') (Some ''s1'')
             (Some ''user'') = Inr ''acme/a1/u1''"
    by (simp add: upload_destination_prefix_def truthy_def fmt_def)
  have sz: "getsize acme_env ''report.pdf'' = Some 2048"
    by (simp add: acme_env_def)
  let ?units = "projr (process_document acme_env ''report.pdf'' (Some ''a1'') (Some ''u1'')
                         False None (Some ''s1'') None)"
  have pd: "process_document acme_env ''report.pdf'' (Some ''a1'') (Some ''u1'')
              (if Some ''user'' = Some ''global'' then True else False) None (Some ''s1'') None
            = Inr (hd ?units # tl ?units)"
    by (simp add: acme_process_document)
  have did: "doc_document_id (hd ?units) = ''report''"
    by (simp add: acme_process_document)
  have mk: "make_document_record acme_env (doc_document_id (hd ?units))
              ''acme'' ''acme'' ''report.pdf'' (Some ''a1'') (Some ''u1'') (Some ''s1'')
              (Some ''user'') ''acme/a1/u1'' (hd ?units # tl ?units) = Inr report_record"
    by (simp add: make_document_record_def sz acme_process_document report_record_def
        os_path_join_def os_path_basename_def fmt_def)
  note t = upload_succeeds [OF p sz pd ix acme_index_key mk reg]
  show "fst (upload acme_env ''acme'' ''acme'' ''report.pdf'' (Some ''a1'') (Some ''u1'')
                (Some ''s1'') (Some ''user'') w) = Inr ()"
    by (rule t(1))
  show "documents (snd (upload acme_env ''acme'' ''acme'' ''report.pdf'' (Some ''a1'')
                           (Some ''u1'') (Some ''s1'') (Some ''user'') w)) ''report'' =
           Some report_record"
    by (simp add: t(2) did)
  show "indexes (snd (upload acme_env ''acme'' ''acme'' ''report.pdf'' (Some ''a1'')
                         (Some ''u1'') (Some ''s1'') (Some ''user'') w)) ''acme'' =
           Some (acme_index_record (ids @ [''report'']))"
    by (simp add: t(3) did acme_index_record_def)
  show "\<exists>units'. search_service (snd (upload acme_env ''acme'' ''acme'' ''report.pdf''
                                         (Some ''a1'') (Some ''u1'') (Some ''s1'')
                                         (Some ''user'') w)) ''acme'' =
                    Some (acme_index\<lparr>si_units := units'\<rparr>)"
    using t(4) by simp
qed

lemma acme_world_index:
  "search_service acme_world ''acme'' = Some (acme_index\<lparr>si_units := []\<rparr>)"
  "indexes acme_world ''acme'' = Some (acme_index_record [])"
  by (simp_all add: acme_world_def acme_index_def)

lemma acme_world_uploaded_facts:
  "fst (upload acme_env ''acme'' ''acme'' ''report.pdf'' (Some ''a1'') (Some ''u1'')
          (Some ''s1'') (Some ''user'') acme_world) = Inr ()"
  "indexes acme_world_uploaded ''acme'' = Some (acme_index_record [''report''])"
  "\<exists>units. search_service acme_world_uploaded ''acme'' = Some (acme_index\<lparr>si_units := units\<rparr>)"
  using acme_upload_step [OF acme_world_index]
  by (simp_all add: acme_world_uploaded_def)

lemma acme_world_uploaded_twice_facts:
  "fst (upload acme_env ''acme'' ''acme'' ''report.pdf'' (Some ''a1'') (Some ''u1'')
          (Some ''s1'') (Some ''user'') acme_world_uploaded) = Inr ()"
  "documents acme_world_uploaded_twice ''report'' = Some report_record"
  "indexes acme_world_uploaded_twice ''acme'' = Some (acme_index_record [''report'', ''report''])"
  "\<exists>units. search_service acme_world_uploaded_twice ''acme'' =
             Some (acme_index\<lparr>si_units := units\<rparr>)"
proof -
  from acme_world_uploaded_facts(3) obtain units where
    ix: "search_service acme_world_uploaded ''acme'' = Some (acme_index\<lparr>si_units := units\<rparr>)"
    by blast
  note t = acme_upload_step [OF ix acme_world_uploaded_facts(2)]
  show "fst (upload acme_env ''acme'' ''acme'' ''report.pdf'' (Some ''a1'') (Some ''u1'')
          (Some ''s1'') (Some ''user'') acme_world_uploaded) = Inr ()"
    by (rule t(1))
  show "documents acme_world_uploaded_twice ''report'' = Some report_record"
    using t(2) by (simp add: acme_world_uploaded_twice_def)
  show "indexes acme_world_uploaded_twice ''acme'' =
          Some (acme_index_record [''report'', ''report''])"
    using t(3) by (simp add: acme_world_uploaded_twice_def)
  show "\<exists>units. search_service acme_world_uploaded_twice ''acme'' =
             Some (acme_index\<lparr>si_units := units\<rparr>)"
    using t(4) by (simp add: acme_world_uploaded_twice_def)
qed

lemma two_tenant_world_facts:
  "documents two_tenant_world ''report'' = Some report_record"
  "search_service two_tenant_world ''beta'' = Some (acme_index\<lparr>si_units := []\<rparr>)"
  "search_service two_tenant_world ''acme'' =
     Some (acme_index\<lparr>si_units := [report_unit 0 ''alpha'', report_unit 1 ''beta'']\<rparr>)"
  "indexes two_tenant_world ''acme'' = Some (acme_index_record [''report''])"
  by (simp_all add: two_tenant_world_def acme_world_report_def acme_index_def)

text \<open>
  Claim C5 fails as it is stated, at two inputs. After \<open>report.pdf\<close> was uploaded twice the
  registry lists the id twice; the delete by its user returns normally and removes the
  record, and the registry record still lists the id. And a delete of the same document
  through the manager of another tenant, \<open>beta\<close>, by the user of the record removes the
  record while the units and the registry entry of the owning tenant stay.
\<close>

theorem delete_leaves_registry_entry:
  "fst (upload acme_env ''acme'' ''acme'' ''report.pdf'' (Some ''a1'') (Some ''u1'')
          (Some ''s1'') (Some ''user'') acme_world) = Inr () \<and>
   fst (upload acme_env ''acme'' ''acme'' ''report.pdf'' (Some ''a1'') (Some ''u1'')
          (Some ''s1'') (Some ''user'') acme_world_uploaded) = Inr () \<and>
   documents acme_world_uploaded_twice ''report'' = Some report_record \<and>
   dr_user_id report_record = ''u1'' \<and>
   fst (delete acme_env ''acme'' ''report'' ''u1'' acme_world_uploaded_twice) = Inr () \<and>
   documents (snd (delete acme_env ''acme'' ''report'' ''u1'' acme_world_uploaded_twice))
     ''report'' = None \<and>
   indexes (snd (delete acme_env ''acme'' ''report'' ''u1'' acme_world_uploaded_twice)) ''acme''
     = Some (acme_index_record [''report'']) \<and>
   documents two_tenant_world ''report'' = Some report_record \<and>
   documents (snd (delete acme_env ''beta'' ''report'' ''u1'' two_tenant_world)) ''report''
     = None \<and>
   search_service (snd (delete acme_env ''beta'' ''report'' ''u1'' two_tenant_world)) ''acme''
     = Some (acme_index\<lparr>si_units := [report_unit 0 ''alpha'', report_unit 1 ''beta'']\<rparr>) \<and>
   indexes (snd (delete acme_env ''beta'' ''report'' ''u1'' two_tenant_world)) ''acme''
     = Some (acme_index_record [''report''])"
proof -
  have own: "dr_user_id report_record = ''u1''"
    by (simp add: report_record_def)
  from acme_world_uploaded_twice_facts(4) obtain units where
    ix: "search_service acme_world_uploaded_twice ''acme'' =
           Some (acme_index\<lparr>si_units := units\<rparr>)"
    by blast
  note d = delete_authorized_state
             [OF acme_world_uploaded_twice_facts(2) own ix acme_index_key, of acme_env]
  have a: "fst (delete acme_env ''acme'' ''report'' ''u1'' acme_world_uploaded_twice) = Inr ()"
    by (simp add: d(5) acme_world_uploaded_twice_facts(3) acme_index_record_def)
  have b: "documents (snd (delete acme_env ''acme'' ''report'' ''u1'' acme_world_uploaded_twice))
             ''report'' = None"
    by (simp add: d(1))
  have c: "indexes (snd (delete acme_env ''acme'' ''report'' ''u1'' acme_world_uploaded_twice))
             ''acme'' = Some (acme_index_record [''report''])"
    by (simp add: d(3) acme_world_uploaded_twice_facts(3) acme_index_record_def)
  note e = delete_authorized_state
             [OF two_tenant_world_facts(1) own two_tenant_world_facts(2) acme_index_key,
              of acme_env]
  have f: "documents (snd (delete acme_env ''beta'' ''report'' ''u1'' two_tenant_world))
             ''report'' = None"
    by (simp add: e(1))
  have g: "search_service (snd (delete acme_env ''beta'' ''report'' ''u1'' two_tenant_world))
             ''acme'' =
           Some (acme_index\<lparr>si_units := [report_unit 0 ''alpha'', report_unit 1 ''beta'']\<rparr>)"
    by (simp add: e(2) two_tenant_world_facts(3))
  have h: "indexes (snd (delete acme_env ''beta'' ''report'' ''u1'' two_tenant_world)) ''acme''
             = Some (acme_index_record [''report''])"
    using e(7) by (simp add: two_tenant_world_facts(4))
  show ?thesis
    by (intro conjI acme_world_uploaded_facts(1) acme_world_uploaded_twice_facts(1,2) own
        a b c two_tenant_world_facts(1) f g h)
qed

text \<open>
  Claim C5 as amended. Deleting, through the manager of the tenant that owns it (the
  record's \<open>customer_id\<close> and \<open>index_name\<close> are the manager's tenant, whose index is keyed by
  \<open>chunk_id\<close>), a document whose record exists and carries the requester's user id: the
  \<open>DocumentRecord\<close> is removed from the record store; no unit with that document id is
  left in the tenant's index, and the units are found by the service's query on
  \<open>document_id\<close>, so the chunk id list held in the record plays no part; one occurrence of
  the document id is removed from the tenant's registry record, so the id is no longer
  listed when it was listed once, and the delete returns normally when the id was listed.
  A second delete of the same id fails with the not-found-or-not-authorized exception
  and changes nothing.
\<close>

theorem delete_by_owning_tenant:
  fixes env :: "'e env" and w :: "'e world"
  assumes "documents w document_id = Some r" and "dr_user_id r = user_id"
    and "search_service w customer_id = Some ix" and "key_field ix = Some ''chunk_id''"
    and "dr_customer_id r = customer_id" and "dr_index_name r = customer_id"
  shows "documents (snd (delete env customer_id document_id user_id w)) document_id = None \<and>
         (\<exists>ix'. search_service (snd (delete env customer_id document_id user_id w))
                  (dr_index_name r) = Some ix' \<and>
                (\<forall>u \<in> set (si_units ix'). doc_document_id u \<noteq> document_id)) \<and>
         search_service
           (snd (delete env customer_id document_id user_id
                   (w\<lparr>documents := (documents w)(document_id \<mapsto> r\<lparr>dr_chunk_ids := ids\<rparr>)\<rparr>))) =
           search_service (snd (delete env customer_id document_id user_id w)) \<and>
         indexes (snd (delete env customer_id document_id user_id w)) (dr_customer_id r) =
           map_option (\<lambda>ir. ir\<lparr>ir_document_ids := remove1 document_id (ir_document_ids ir)\<rparr>)
             (indexes w (dr_customer_id r)) \<and>
         (\<forall>ir. indexes w (dr_customer_id r) = Some ir \<and>
               document_id \<in> set (ir_document_ids ir) \<longrightarrow>
               fst (delete env customer_id document_id user_id w) = Inr ()) \<and>
         (\<forall>ir. indexes w (dr_customer_id r) = Some ir \<and>
               count_list (ir_document_ids ir) document_id \<le> 1 \<longrightarrow>
               (\<exists>ir'. indexes (snd (delete env customer_id document_id user_id w))
                         (dr_customer_id r) = Some ir' \<and>
                      document_id \<notin> set (ir_document_ids ir'))) \<and>
         delete env customer_id document_id user_id
           (snd (delete env customer_id document_id user_id w)) =
           (Inl (PyException
                   (''Document with id: '' @ document_id @
                    '' not found or user is not authorized to delete the document.'')),
            snd (delete env customer_id document_id user_id w))"
proof -
  note st = delete_authorized_state [OF assms(1-4), of env]
  let ?w2 = "w\<lparr>documents := (documents w)(document_id \<mapsto> r\<lparr>dr_chunk_ids := ids\<rparr>)\<rparr>"
  have "documents ?w2 document_id = Some (r\<lparr>dr_chunk_ids := ids\<rparr>)"
    and "dr_user_id (r\<lparr>dr_chunk_ids := ids\<rparr>) = user_id"
    and "search_service ?w2 customer_id = Some ix"
    using assms by simp_all
  note st2 = delete_authorized_state [OF this assms(4), of env]
  have a: "documents (snd (delete env customer_id document_id user_id w)) document_id = None"
    by (simp add: st(1))
  have b: "\<exists>ix'. search_service (snd (delete env customer_id document_id user_id w))
                  (dr_index_name r) = Some ix' \<and>
                (\<forall>u \<in> set (si_units ix'). doc_document_id u \<noteq> document_id)"
    by (simp add: st(2) units_left_none assms(6))
  have c: "search_service (snd (delete env customer_id document_id user_id ?w2)) =
           search_service (snd (delete env customer_id document_id user_id w))"
    by (simp add: st(2) st2(2))
  have d: "indexes (snd (delete env customer_id document_id user_id w)) (dr_customer_id r) =
           map_option (\<lambda>ir. ir\<lparr>ir_document_ids := remove1 document_id (ir_document_ids ir)\<rparr>)
             (indexes w (dr_customer_id r))"
    by (simp add: st(3) assms(5))
  have e: "\<forall>ir. indexes w (dr_customer_id r) = Some ir \<and>
               document_id \<in> set (ir_document_ids ir) \<longrightarrow>
               fst (delete env customer_id document_id user_id w) = Inr ()"
    by (simp add: st(5) assms(5))
  have f: "\<forall>ir. indexes w (dr_customer_id r) = Some ir \<and>
               count_list (ir_document_ids ir) document_id \<le> 1 \<longrightarrow>
               (\<exists>ir'. indexes (snd (delete env customer_id document_id user_id w))
                         (dr_customer_id r) = Some ir' \<and>
                      document_id \<notin> set (ir_document_ids ir'))"
    by (auto simp: d count_list_remove1)
  have g: "delete env customer_id document_id user_id
           (snd (delete env customer_id document_id user_id w)) =
           (Inl (PyException
                   (''Document with id: '' @ document_id @
                    '' not found or user is not authorized to delete the document.'')),
            snd (delete env customer_id document_id user_id w))"
    by (rule delete_refused) (simp add: a)
  show ?thesis by (intro conjI a b c d e f g)
qed

theorem delete_by_owning_tenant_witness:
  "documents acme_world_report ''report'' = Some report_record \<and>
   dr_user_id report_record = ''u1'' \<and>
   dr_customer_id report_record = ''acme'' \<and> dr_index_name report_record = ''acme'' \<and>
   count_list (ir_document_ids (acme_index_record [''report''])) ''report'' \<le> 1 \<and>
   documents (snd (delete acme_env ''acme'' ''report'' ''u1'' acme_world_report)) ''report''
     = None \<and>
   indexes (snd (delete acme_env ''acme'' ''report'' ''u1'' acme_world_report)) ''acme''
     = Some (acme_index_record []) \<and>
   fst (delete acme_env ''acme'' ''report'' ''u1'' acme_world_report) = Inr () \<and>
   fst (delete acme_env ''acme'' ''report'' ''u1''
          (snd (delete acme_env ''acme'' ''report'' ''u1'' acme_world_report))) =
     Inl (PyException
            ''Document with id: report not found or user is not authorized to delete the document.'')"
proof -
  have ten: "dr_customer_id report_record = ''acme''" "dr_index_name report_record = ''acme''"
    by (simp_all add: report_record_def)
  have cnt: "count_list (ir_document_ids (acme_index_record [''report''])) ''report'' \<le> 1"
    by (simp add: acme_index_record_def)
  note t = delete_by_owning_tenant
             [OF acme_report_facts(1,2,3) acme_report_key ten, where env = acme_env]
  have a: "documents (snd (delete acme_env ''acme'' ''report'' ''u1'' acme_world_report))
             ''report'' = None"
    using t by (rule conjunct1)
  have "indexes (snd (delete acme_env ''acme'' ''report'' ''u1'' acme_world_report))
          (dr_customer_id report_record) =
          map_option (\<lambda>ir. ir\<lparr>ir_document_ids := remove1 ''report'' (ir_document_ids ir)\<rparr>)
            (indexes acme_world_report (dr_customer_id report_record))"
    using t by blast
  then have b: "indexes (snd (delete acme_env ''acme'' ''report'' ''u1'' acme_world_report))
                  ''acme'' = Some (acme_index_record [])"
    by (simp add: ten acme_report_facts(4) acme_index_record_def)
  have "\<forall>ir. indexes acme_world_report (dr_customer_id report_record) = Some ir \<and>
              ''report'' \<in> set (ir_document_ids ir) \<longrightarrow>
              fst (delete acme_env ''acme'' ''report'' ''u1'' acme_world_report) = Inr ()"
    using t by blast
  then have c: "fst (delete acme_env ''acme'' ''report'' ''u1'' acme_world_report) = Inr ()"
    by (simp add: ten acme_report_facts(4) acme_index_record_def)
  have "delete acme_env ''acme'' ''report'' ''u1''
           (snd (delete acme_env ''acme'' ''report'' ''u1'' acme_world_report)) =
           (Inl (PyException
                   (''Document with id: '' @ ''report'' @
                    '' not found or user is not authorized to delete the document.'')),
            snd (delete acme_env ''acme'' ''report'' ''u1'' acme_world_report))"
    using t by blast
  then have d: "fst (delete acme_env ''acme'' ''report'' ''u1''
          (snd (delete acme_env ''acme'' ''report'' ''u1'' acme_world_report))) =
     Inl (PyException
            ''Document with id: report not found or user is not authorized to delete the document.'')"
    by simp
  show ?thesis
    by (intro conjI acme_report_facts(1,2) ten cnt a b c d)
qed

end
